theory Spec2Isabelle
  imports Complex_Main "HOL-Library.Multiset"
begin

section \<open>Numbers\<close>

text \<open>
  JavaScript numbers are modelled as exact reals. Comparisons, absolute values and the
  arithmetic on the small integral values used below are the same on doubles and on
  reals. Where the rounding of doubles matters, for the inverse of a matrix and its
  product with the matrix, the operations are also given with every result rounded
  (section \<open>Double-precision arithmetic\<close>). NaN, infinities and the sign of zero are
  outside the model.
\<close>

definition EPSILON :: real where
  "EPSILON = 1 / 2 ^ 52"

definition BIG_EPSILON :: real where
  "BIG_EPSILON = EPSILON * 10000"

definition REAL_WORLD_EPSILON :: real where
  "REAL_WORLD_EPSILON = 1 / 10000"

text \<open>\<open>isSimilar(a, b, tol)\<close>: an absent tolerance defaults to \<open>Number.EPSILON\<close>.\<close>

definition isSimilar :: "real \<Rightarrow> real \<Rightarrow> real option \<Rightarrow> bool" where
  "isSimilar a b tol =
     (let t = (case tol of None \<Rightarrow> EPSILON | Some t' \<Rightarrow> t') in abs (a - b) < t)"

section \<open>Tag values and errors\<close>

text \<open>
  A value held by the tag store: a string, a number, a sequence of values, a nested
  keyed store (an item of a sequence-type tag), or JavaScript's \<open>undefined\<close>.
  A data element is represented by its \<open>value\<close> array, and a store maps a tag
  key to the element stored under it.
\<close>

datatype jsval =
    JUndefined
  | JStr string
  | JNum real
  | JArr "jsval list"
  | JItem "(string \<times> jsval list) list"

type_synonym DataElements = "string \<Rightarrow> jsval list option"

text \<open>Every \<open>throw\<close> of the sources is one constructor; \<open>TypeError\<close> is the
  runtime error of reading a property of \<open>undefined\<close>.\<close>

datatype error =
    MissingTag string
  | CannotCompareArray
  | UnsupportedTagValue string jsval
  | NonThreeDArray nat
  | FrameCountMismatch
  | UnsupportedDimensionOrganization
  | UnknownDimensionOrganization
  | UnsupportedLastIndex
  | MissingSegmentSequence
  | MissingPerFrameSequence
  | PerFrameCountMismatch
  | MultiOrientationUnsupported
  | MultiSpacingUnsupported
  | MissingSpacing
  | MissingOrientation
  | IntermediatePositionDivergence
  | TypeError

text \<open>Reading index \<open>i\<close> of a JavaScript array gives \<open>undefined\<close> out of range.\<close>

definition elemAt :: "jsval list \<Rightarrow> nat \<Rightarrow> jsval" where
  "elemAt xs i = (if i < length xs then xs ! i else JUndefined)"

text \<open>
  \<open>===\<close> on two values: strings and numbers by value; an array or an item is an
  object and equals only itself, which the store never hands out twice.
\<close>

fun strictEq :: "jsval \<Rightarrow> jsval \<Rightarrow> bool" where
  "strictEq JUndefined JUndefined = True"
| "strictEq (JStr a) (JStr b) = (a = b)"
| "strictEq (JNum a) (JNum b) = (a = b)"
| "strictEq _ _ = False"

section \<open>3D primitives\<close>

text \<open>
  \<open>Vector3D\<close> and \<open>Point3D\<close> are imported by the sources from modules that are not
  part of them; both are triples of coordinates read with \<open>getX\<close>, \<open>getY\<close>, \<open>getZ\<close>.
\<close>

datatype Vector3D = Vector3D (getX: real) (getY: real) (getZ: real)

section \<open>Matrix33\<close>

text \<open>The class holds its nine values in row-major order.\<close>

datatype Matrix33 = Matrix33 (getValues: "real list")


definition get :: "Matrix33 \<Rightarrow> nat \<Rightarrow> nat \<Rightarrow> real" where
  "get m row col = getValues m ! (row * 3 + col)"

text \<open>
  \<open>getMatrixInverse\<close>: \<open>None\<close> is the \<open>undefined\<close> returned for a zero determinant.
\<close>

definition getMatrixInverse :: "Matrix33 \<Rightarrow> Matrix33 option" where
  "getMatrixInverse m =
     (let m00 = get m 0 0; m01 = get m 0 1; m02 = get m 0 2;
          m10 = get m 1 0; m11 = get m 1 1; m12 = get m 1 2;
          m20 = get m 2 0; m21 = get m 2 1; m22 = get m 2 2;
          a1212 = m11 * m22 - m12 * m21;
          a2012 = m12 * m20 - m10 * m22;
          a0112 = m10 * m21 - m11 * m20;
          det = m00 * a1212 + m01 * a2012 + m02 * a0112
      in if det = 0 then None
         else (let det' = 1 / det in
           Some (Matrix33 [
             det' * a1212,
             det' * (m02 * m21 - m01 * m22),
             det' * (m01 * m12 - m02 * m11),
             det' * a2012,
             det' * (m00 * m22 - m02 * m20),
             det' * (m02 * m10 - m00 * m12),
             det' * a0112,
             det' * (m01 * m20 - m00 * m21),
             det' * (m00 * m11 - m01 * m10)])))"

text \<open>
  \<open>getInverse\<close> caches the result of \<open>getMatrixInverse\<close> in a private field; the
  cache does not change what is returned.
\<close>

definition getInverse :: "Matrix33 \<Rightarrow> Matrix33 option" where
  "getInverse m = getMatrixInverse m"

definition equals :: "Matrix33 \<Rightarrow> Matrix33 \<Rightarrow> real option \<Rightarrow> bool" where
  "equals m rhs p =
     list_all (\<lambda>i. list_all (\<lambda>j. isSimilar (get m i j) (get rhs i j) p) [0..<3]) [0..<3]"


text \<open>\<open>multiplyArray3D\<close> throws for an array whose length is not 3.\<close>

definition multiplyArray3D :: "Matrix33 \<Rightarrow> real list \<Rightarrow> error + real list" where
  "multiplyArray3D m array3D =
     (if length array3D \<noteq> 3 then Inl (NonThreeDArray (length array3D))
      else Inr (map (\<lambda>i. foldl (\<lambda>tmp j. tmp + get m i j * array3D ! j) 0 [0..<3]) [0..<3]))"

definition getIdentityMat33 :: Matrix33 where
  "getIdentityMat33 = Matrix33 [1, 0, 0, 0, 1, 0, 0, 0, 1]"

definition getCoronalMat33 :: Matrix33 where
  "getCoronalMat33 = Matrix33 [1, 0, 0, 0, 0, 1, 0, -1, 0]"

definition getSagittalMat33 :: Matrix33 where
  "getSagittalMat33 = Matrix33 [0, 0, -1, 1, 0, 0, 0, -1, 0]"

subsection \<open>Orientation code\<close>

text \<open>
  The loop of \<open>getVectorStringLPS\<close> runs at most three times over the absolute values
  still standing; each round appends the letter of the axis that is strictly larger than
  both others and than the threshold, zeroes that axis, and stops when there is none.
\<close>

definition threshold :: real where
  "threshold = 1 / 10000"

fun vectorLoop :: "nat \<Rightarrow> char \<Rightarrow> char \<Rightarrow> char \<Rightarrow> Vector3D \<Rightarrow> string" where
  "vectorLoop 0 oX oY oZ absv = []"
| "vectorLoop (Suc n) oX oY oZ absv =
     (if getX absv > threshold \<and> getX absv > getY absv \<and> getX absv > getZ absv
        then oX # vectorLoop n oX oY oZ (Vector3D 0 (getY absv) (getZ absv))
      else if getY absv > threshold \<and> getY absv > getX absv \<and> getY absv > getZ absv
        then oY # vectorLoop n oX oY oZ (Vector3D (getX absv) 0 (getZ absv))
      else if getZ absv > threshold \<and> getZ absv > getX absv \<and> getZ absv > getY absv
        then oZ # vectorLoop n oX oY oZ (Vector3D (getX absv) (getY absv) 0)
      else [])"

definition getVectorStringLPS :: "Vector3D \<Rightarrow> string" where
  "getVectorStringLPS vector =
     (let absv = Vector3D (abs (getX vector)) (abs (getY vector)) (abs (getZ vector));
          orientationX = (if getX vector < 0 then CHR ''R'' else CHR ''L'');
          orientationY = (if getY vector < 0 then CHR ''A'' else CHR ''P'');
          orientationZ = (if getZ vector < 0 then CHR ''I'' else CHR ''S'')
      in vectorLoop 3 orientationX orientationY orientationZ absv)"

definition getOrientationStringLPS :: "Matrix33 \<Rightarrow> string" where
  "getOrientationStringLPS matrix =
     (let v0 = Vector3D (get matrix 0 0) (get matrix 1 0) (get matrix 2 0);
          v1 = Vector3D (get matrix 0 1) (get matrix 1 1) (get matrix 2 1);
          v2 = Vector3D (get matrix 0 2) (get matrix 1 2) (get matrix 2 2)
      in getVectorStringLPS v0 @ getVectorStringLPS v1 @ getVectorStringLPS v2)"

section \<open>Double-precision arithmetic\<close>












section \<open>Tag validator\<close>

text \<open>
  Modelled from the spec: \<open>arraySortEquals\<close> (imported from a module that is not
  part of the sources) compares two value sequences without regard to order, as its
  name says by sorting copies of both and comparing them element by element.
\<close>

definition arraySortEquals :: "'a list \<Rightarrow> 'a list \<Rightarrow> bool" where
  "arraySortEquals arr0 arr1 = (mset arr0 = mset arr1)"

text \<open>A tag definition \<open>{name, tag, type, enum}\<close>; the table writes \<open>type\<close> as a
  string.\<close>

record tagDefinition =
  name :: string
  tag :: string
  tagType :: jsval
  tagEnum :: "jsval list"

text \<open>The array branch of \<open>checkTag\<close>: the loop over \<open>tagDefinition.enum\<close>.\<close>

fun includesArray :: "jsval list \<Rightarrow> jsval list \<Rightarrow> error + bool" where
  "includesArray [] tagValue = Inr False"
| "includesArray (e # es) tagValue =
     (case e of
        JArr arr \<Rightarrow> if arraySortEquals arr tagValue then Inr True
                    else includesArray es tagValue
      | _ \<Rightarrow> Inl CannotCompareArray)"

text \<open>The second half of \<open>checkTag\<close>, reached when the element is there.\<close>

definition checkTagValue :: "jsval list \<Rightarrow> tagDefinition \<Rightarrow> error + unit" where
  "checkTagValue val tagDefinition =
     (let tagValue = (if length val = 1 then elemAt val 0 else JArr val) in
      case (case tagValue of
              JArr arr \<Rightarrow> includesArray (tagEnum tagDefinition) arr
            | _ \<Rightarrow> Inr (list_ex (strictEq tagValue) (tagEnum tagDefinition))) of
        Inl e \<Rightarrow> Inl e
      | Inr includes \<Rightarrow>
          if \<not> includes then Inl (UnsupportedTagValue (name tagDefinition) tagValue)
          else Inr ())"

definition checkTag :: "DataElements \<Rightarrow> tagDefinition \<Rightarrow> error + unit" where
  "checkTag dataElements tagDefinition =
     (let element = dataElements (tag tagDefinition) in
      if strictEq (tagType tagDefinition) (JNum 1) \<or> strictEq (tagType tagDefinition) (JNum 2)
      then (case element of
              None \<Rightarrow> Inl (MissingTag (name tagDefinition))
            | Some val \<Rightarrow> checkTagValue val tagDefinition)
      else (case element of
              None \<Rightarrow> Inr ()
            | Some val \<Rightarrow> checkTagValue val tagDefinition))"

definition RequiredDicomSegTags :: "tagDefinition list" where
  "RequiredDicomSegTags = [
     \<lparr>name = ''TransferSyntaxUID'', tag = ''00020010'', tagType = JStr ''1'',
      tagEnum = [JStr ''1.2.840.10008.1.2.1'']\<rparr>,
     \<lparr>name = ''MediaStorageSOPClassUID'', tag = ''00020002'', tagType = JStr ''1'',
      tagEnum = [JStr ''1.2.840.10008.5.1.4.1.1.66.4'']\<rparr>,
     \<lparr>name = ''SOPClassUID'', tag = ''00020002'', tagType = JStr ''1'',
      tagEnum = [JStr ''1.2.840.10008.5.1.4.1.1.66.4'']\<rparr>,
     \<lparr>name = ''Modality'', tag = ''00080060'', tagType = JStr ''1'',
      tagEnum = [JStr ''SEG'']\<rparr>,
     \<lparr>name = ''SegmentationType'', tag = ''00620001'', tagType = JStr ''1'',
      tagEnum = [JStr ''BINARY'']\<rparr>,
     \<lparr>name = ''DimensionOrganizationType'', tag = ''00209311'', tagType = JStr ''3'',
      tagEnum = [JStr ''3D'']\<rparr>,
     \<lparr>name = ''ImageType'', tag = ''00080008'', tagType = JStr ''1'',
      tagEnum = [JArr [JStr ''DERIVED'', JStr ''PRIMARY'']]\<rparr>,
     \<lparr>name = ''SamplesPerPixel'', tag = ''00280002'', tagType = JStr ''1'',
      tagEnum = [JNum 1]\<rparr>,
     \<lparr>name = ''PhotometricInterpretation'', tag = ''00280004'', tagType = JStr ''1'',
      tagEnum = [JStr ''MONOCHROME2'']\<rparr>,
     \<lparr>name = ''PixelRepresentation'', tag = ''00280103'', tagType = JStr ''1'',
      tagEnum = [JNum 0]\<rparr>,
     \<lparr>name = ''BitsAllocated'', tag = ''00280100'', tagType = JStr ''1'',
      tagEnum = [JNum 1]\<rparr>,
     \<lparr>name = ''BitsStored'', tag = ''00280101'', tagType = JStr ''1'',
      tagEnum = [JNum 1]\<rparr>,
     \<lparr>name = ''HighBit'', tag = ''00280102'', tagType = JStr ''1'',
      tagEnum = [JNum 0]\<rparr>]"

text \<open>\<open>getDefaultDicomSegJson\<close>: the object built by the loop, as a map from
  property name to value.\<close>

definition getDefaultDicomSegJson :: "string \<Rightarrow> jsval option" where
  "getDefaultDicomSegJson =
     foldl (\<lambda>tags reqTag. tags(name reqTag \<mapsto> elemAt (tagEnum reqTag) 0))
       Map.empty RequiredDicomSegTags"

text \<open>The first loop of \<open>create\<close>: \<open>checkTag\<close> on every entry, stopping at the
  first one that throws.\<close>

fun checkTags :: "DataElements \<Rightarrow> tagDefinition list \<Rightarrow> error + unit" where
  "checkTags dataElements [] = Inr ()"
| "checkTags dataElements (d # ds) =
     (case checkTag dataElements d of
        Inl e \<Rightarrow> Inl e
      | Inr _ \<Rightarrow> checkTags dataElements ds)"

section \<open>Geometry primitives\<close>

text \<open>
  The classes \<open>Point3D\<close>, \<open>Spacing\<close>, \<open>Index\<close> and \<open>Geometry\<close> and the function
  \<open>getSliceGeometrySpacing\<close> are imported by \<open>maskFactory.js\<close> from modules that
  are not part of the sources. A position patient is the triple of reals of the frame's
  image position; a spacing is the triple (column, row, slice).
\<close>

datatype Point3D = Point3D (pointX: real) (pointY: real) (pointZ: real)

type_synonym posPat = "real \<times> real \<times> real"

type_synonym Spacing = "real \<times> real \<times> real"

type_synonym IOP = "real \<times> real \<times> real \<times> real \<times> real \<times> real"

fun iopValues :: "IOP \<Rightarrow> real list" where
  "iopValues (a, b, c, d, e, f) = [a, b, c, d, e, f]"

fun posPatValues :: "posPat \<Rightarrow> real list" where
  "posPatValues (x, y, z) = [x, y, z]"

fun point3DFromArray :: "posPat \<Rightarrow> Point3D" where
  "point3DFromArray (x, y, z) = Point3D x y z"

text \<open>Modelled from the spec: the slice normal is the cross product of the row and
  column direction cosines (\<open>Vector3D.crossProduct\<close>).\<close>

definition crossProduct :: "Vector3D \<Rightarrow> Vector3D \<Rightarrow> Vector3D" where
  "crossProduct u v = Vector3D
     (getY u * getZ v - getZ u * getY v)
     (getZ u * getX v - getX u * getZ v)
     (getX u * getY v - getY u * getX v)"

text \<open>Modelled from the spec: the distance between two points (\<open>Point3D.getDistance\<close>)
  is the Euclidean one.\<close>

definition getDistance :: "Point3D \<Rightarrow> Point3D \<Rightarrow> real" where
  "getDistance p q =
     sqrt ((pointX p - pointX q) * (pointX p - pointX q)
         + (pointY p - pointY q) * (pointY p - pointY q)
         + (pointZ p - pointZ q) * (pointZ p - pointZ q))"

text \<open>The row-by-column products of \<open>multiplyArray3D\<close> on the three coordinates of a
  point, for which its length check passes (\<open>multiplyPoint3D\<close>).\<close>

definition multiplyPoint3D :: "Matrix33 \<Rightarrow> Point3D \<Rightarrow> Point3D" where
  "multiplyPoint3D m p =
     (let array3D = [pointX p, pointY p, pointZ p];
          values = map (\<lambda>i. foldl (\<lambda>tmp j. tmp + get m i j * array3D ! j) 0 [0..<3]) [0..<3]
      in Point3D (values ! 0) (values ! 1) (values ! 2))"

record Geometry =
  geoOrigin :: Point3D
  geoSpacing :: Spacing
  geoOrientation :: Matrix33

text \<open>
  Modelled from the spec: \<open>Geometry.indexToWorld\<close>. A synthesized position lies on the
  line through the first position along the orientation normal, at a multiple of the
  slice spacing: the index is scaled by the spacing, turned by the orientation matrix and
  moved to the origin.
\<close>

fun indexToWorld :: "Geometry \<Rightarrow> nat \<times> nat \<times> nat \<Rightarrow> Point3D" where
  "indexToWorld g (i, j, k) =
     (case geoSpacing g of (sx, sy, sz) \<Rightarrow>
        (let oriented = multiplyPoint3D (geoOrientation g)
                          (Point3D (real i * sx) (real j * sy) (real k * sz))
         in Point3D (pointX (geoOrigin g) + pointX oriented)
                    (pointY (geoOrigin g) + pointY oriented)
                    (pointZ (geoOrigin g) + pointZ oriented)))"

text \<open>
  Modelled from the spec: \<open>getSliceGeometrySpacing\<close>. The inferred inter-slice spacing
  is read off the sorted positions projected on the slice normal (the third coordinate
  under the inverse orientation): the smallest gap between two consecutive projections,
  the unit that gap filling steps by. There is none for fewer than two positions, and a
  matrix without inverse cannot be applied.
\<close>

definition getSliceGeometrySpacing :: "Point3D list \<Rightarrow> Matrix33 \<Rightarrow> error + real option" where
  "getSliceGeometrySpacing origins orientation =
     (if length origins \<le> 1 then Inr None
      else (case getInverse orientation of
        None \<Rightarrow> Inl TypeError
      | Some invOrientation \<Rightarrow>
          (let zs = map (\<lambda>p. pointZ (multiplyPoint3D invOrientation p)) origins;
               diffs = map (\<lambda>(z0, z1). abs (z1 - z0)) (zip zs (tl zs))
           in Inr (Some (foldl min (hd diffs) (tl diffs))))))"

text \<open>Modelled from the spec: two spacings match when their values are the same
  (\<open>Spacing.equals\<close>).\<close>

definition spacingEquals :: "Spacing \<Rightarrow> Spacing \<Rightarrow> bool" where
  "spacingEquals a b = (a = b)"

section \<open>The decoder's input\<close>

text \<open>
  \<open>getSegment\<close>, \<open>getSegmentFrameInfo\<close>, \<open>getSpacingFromMeasure\<close> and
  \<open>getImage2DSize\<close> are parsers from modules that are not part of the sources; the
  model takes what they return. A segment has a number and a scalar display value or an
  RGB one; a frame info has the number of the segment it refers to, its image position,
  and an orientation and a spacing when the frame carries its own.
\<close>

record Segment =
  number :: int
  displayValue :: "int option"
  displayRGBValue :: "(int \<times> int \<times> int) option"

record FrameInfo =
  refSegmentNumber :: int
  imagePosPat :: posPat
  imageOrientationPatient :: "IOP option"
  spacing :: "Spacing option"

text \<open>
  An item of the shared functional groups sequence: its plane orientation sequence
  (\<open>00209116\<close>, each item given by the value of \<open>00200037\<close>) and its pixel measures
  sequence (\<open>00289110\<close>, each item given by \<open>getSpacingFromMeasure\<close>), each absent or a
  list of items.
\<close>

record FuncGroup =
  planeOrientationSeq :: "IOP list option"
  pixelMeasuresSeq :: "Spacing list option"

text \<open>
  The tag store as \<open>create\<close> reads it: the elements it looks up by key itself
  (\<open>elements\<close>), the result of \<open>getImage2DSize\<close> (columns, rows), and the three
  sequences whose items go through the parsers: the segment sequence (\<open>00620002\<close>), the
  shared functional groups sequence (\<open>52009229\<close>) and the per-frame functional groups
  sequence (\<open>52009230\<close>), each absent or the list of its parsed items.
\<close>

record SegData =
  elements :: DataElements
  image2DSize :: "nat \<times> nat"
  segSequence :: "Segment list option"
  sharedFunctionalGroupsSeq :: "FuncGroup list option"
  perFrameFuncGroupSequence :: "FrameInfo list option"

text \<open>A typed array: its element kind and its elements. Storing a value converts it to
  the element kind by wrap-around.\<close>

datatype arrayKind = Uint8 | Int8 | Uint16 | Int16 | Uint32 | Int32

fun kindBits :: "arrayKind \<Rightarrow> nat" where
  "kindBits Uint8 = 8" | "kindBits Int8 = 8"
| "kindBits Uint16 = 16" | "kindBits Int16 = 16"
| "kindBits Uint32 = 32" | "kindBits Int32 = 32"

fun kindSigned :: "arrayKind \<Rightarrow> bool" where
  "kindSigned Uint8 = False" | "kindSigned Int8 = True"
| "kindSigned Uint16 = False" | "kindSigned Int16 = True"
| "kindSigned Uint32 = False" | "kindSigned Int32 = True"

definition toKind :: "arrayKind \<Rightarrow> int \<Rightarrow> int" where
  "toKind k v =
     (let m = 2 ^ kindBits k; u = v mod m
      in if kindSigned k \<and> m div 2 \<le> u then u - m else u)"

record TypedArray =
  kind :: arrayKind
  samples :: "int list"

text \<open>Reading a typed array out of range gives \<open>undefined\<close> (\<open>None\<close>); writing out
  of range does nothing.\<close>

definition readSample :: "int list \<Rightarrow> nat \<Rightarrow> int option" where
  "readSample xs i = (if i < length xs then Some (xs ! i) else None)"

definition writeSample :: "arrayKind \<Rightarrow> int list \<Rightarrow> int \<Rightarrow> int option \<Rightarrow> int list" where
  "writeSample k xs i v =
     (if 0 \<le> i \<and> nat i < length xs
      then xs[nat i := (case v of None \<Rightarrow> 0 | Some w \<Rightarrow> toKind k w)]
      else xs)"

section \<open>Dimension organization\<close>

text \<open>\<open>x[key].value\<close> for a value \<open>x\<close> of the store: a \<open>TypeError\<close> unless \<open>x\<close> is an
  item that has the key.\<close>

definition itemValue :: "jsval \<Rightarrow> string \<Rightarrow> error + jsval list" where
  "itemValue x key =
     (case x of
        JItem kvs \<Rightarrow> (case map_of kvs key of None \<Rightarrow> Inl TypeError | Some v \<Rightarrow> Inr v)
      | _ \<Rightarrow> Inl TypeError)"

record DimensionIndex =
  DimensionOrganizationUID :: jsval
  DimensionIndexPointer :: jsval
  DimensionDescriptionLabel :: "jsval option"

record Dimension =
  organizations :: jsval
  indices :: "DimensionIndex list"

text \<open>The loop over the dimension index sequence; it returns the indices and the last
  index pointer read.\<close>

fun dimensionIndices ::
  "jsval \<Rightarrow> jsval list \<Rightarrow> jsval \<Rightarrow> error + (DimensionIndex list \<times> jsval)" where
  "dimensionIndices orgUID [] indexPointer = Inr ([], indexPointer)"
| "dimensionIndices orgUID (it # its) indexPointer =
     (case itemValue it ''00209164'' of
        Inl e \<Rightarrow> Inl e
      | Inr orgVal \<Rightarrow>
         (let indexOrg = elemAt orgVal 0 in
          if \<not> strictEq indexOrg orgUID then Inl UnknownDimensionOrganization
          else (case itemValue it ''00209165'' of
            Inl e \<Rightarrow> Inl e
          | Inr ptrVal \<Rightarrow>
             (let indexPointer' = elemAt ptrVal 0;
                  index = \<lparr>DimensionOrganizationUID = indexOrg,
                           DimensionIndexPointer = indexPointer',
                           DimensionDescriptionLabel =
                             (case itemValue it ''00209421'' of
                                Inl _ \<Rightarrow> None
                              | Inr labelVal \<Rightarrow> Some (elemAt labelVal 0))\<rparr>
              in case dimensionIndices orgUID its indexPointer' of
                   Inl e \<Rightarrow> Inl e
                 | Inr (rest, lastPointer) \<Rightarrow> Inr (index # rest, lastPointer)))))"

definition getDimensionOrganization :: "DataElements \<Rightarrow> error + Dimension" where
  "getDimensionOrganization dataElements =
     (case dataElements ''00209221'' of
        None \<Rightarrow> Inl UnsupportedDimensionOrganization
      | Some orgSq \<Rightarrow>
         if length orgSq \<noteq> 1 then Inl UnsupportedDimensionOrganization
         else (case itemValue (elemAt orgSq 0) ''00209164'' of
           Inl e \<Rightarrow> Inl e
         | Inr orgVal \<Rightarrow>
            (let orgUID = elemAt orgVal 0 in
             case dataElements ''00209222'' of
               None \<Rightarrow> Inr \<lparr>organizations = orgUID, indices = []\<rparr>
             | Some indexSq \<Rightarrow>
                 if length indexSq \<noteq> 2 then Inl UnsupportedDimensionOrganization
                 else (case dimensionIndices orgUID indexSq JUndefined of
                   Inl e \<Rightarrow> Inl e
                 | Inr (idx, indexPointer) \<Rightarrow>
                     if \<not> strictEq indexPointer (JStr ''(0020,0032)'')
                     then Inl UnsupportedLastIndex
                     else Inr \<lparr>organizations = orgUID, indices = idx\<rparr>))))"

section \<open>Mask factory\<close>

subsection \<open>Position patients\<close>

text \<open>\<open>equalPosPat\<close> compares the JSON texts of two positions, which are the same
  exactly for the same values; an \<open>undefined\<close> position (\<open>None\<close>) has no JSON text and
  matches only \<open>undefined\<close>.\<close>

definition equalPosPat :: "'a \<Rightarrow> 'a \<Rightarrow> bool" where
  "equalPosPat pos1 pos2 = (pos1 = pos2)"

definition includesPosPat :: "'a list \<Rightarrow> 'a \<Rightarrow> bool" where
  "includesPosPat arr val = list_ex (\<lambda>arrVal. equalPosPat val arrVal) arr"

text \<open>\<open>findIndex\<close> gives \<open>-1\<close> when no element matches.\<close>

fun findIndexPosPat :: "'a list \<Rightarrow> 'a \<Rightarrow> int" where
  "findIndexPosPat [] val = -1"
| "findIndexPosPat (arrVal # arr) val =
     (if equalPosPat val arrVal then 0
      else (let i = findIndexPosPat arr val in if i < 0 then -1 else i + 1))"

text \<open>The compare function of \<open>getComparePosPat\<close>: calling it throws a \<open>TypeError\<close>
  when the orientation has no inverse.\<close>

definition getComparePosPat :: "Matrix33 \<Rightarrow> posPat \<Rightarrow> posPat \<Rightarrow> error + real" where
  "getComparePosPat orientation pos1 pos2 =
     (case getInverse orientation of
        None \<Rightarrow> Inl TypeError
      | Some invOrientation \<Rightarrow>
         (case multiplyArray3D invOrientation (posPatValues pos1) of
            Inl e \<Rightarrow> Inl e
          | Inr p1 \<Rightarrow>
             (case multiplyArray3D invOrientation (posPatValues pos2) of
                Inl e \<Rightarrow> Inl e
              | Inr p2 \<Rightarrow> Inr (p1 ! 2 - p2 ! 2))))"

text \<open>
  \<open>Array.prototype.sort\<close> with a compare function: a stable sort, written here as
  insertion from the right. An array of fewer than two elements is returned without a
  call of the compare function, and an error of the compare function ends the sort.
\<close>

fun insertSorted ::
  "('a \<Rightarrow> 'a \<Rightarrow> error + real) \<Rightarrow> 'a \<Rightarrow> 'a list \<Rightarrow> error + 'a list" where
  "insertSorted cmp x [] = Inr [x]"
| "insertSorted cmp x (y # ys) =
     (case cmp x y of
        Inl e \<Rightarrow> Inl e
      | Inr c \<Rightarrow>
          if c \<le> 0 then Inr (x # y # ys)
          else (case insertSorted cmp x ys of
                  Inl e \<Rightarrow> Inl e
                | Inr r \<Rightarrow> Inr (y # r)))"

fun arraySort :: "('a \<Rightarrow> 'a \<Rightarrow> error + real) \<Rightarrow> 'a list \<Rightarrow> error + 'a list" where
  "arraySort cmp [] = Inr []"
| "arraySort cmp (x # xs) =
     (case arraySort cmp xs of
        Inl e \<Rightarrow> Inl e
      | Inr r \<Rightarrow> insertSorted cmp x r)"

subsection \<open>Frames and segments\<close>

text \<open>
  \<open>parseInt(v, 10)\<close>: \<open>None\<close> is \<open>NaN\<close>. The argument is turned into a string,
  and the string is read as white space, an optional sign and decimal digits, up to the
  first character that is none.

  The string of a number below \<open>10\<^sup>2\<^sup>1\<close> and not below \<open>10\<^sup>-\<^sup>6\<close> in magnitude is
  its decimal expansion, which reads as its integral part. A larger or smaller number is
  written with an exponent, one digit before the point, which is all that is read: the
  first digit of the expansion (taken here from the exact value of the number).

  The string of an array is the strings of its elements with commas between, which reads
  as the first element does; \<open>undefined\<close> and an object have no digits.
\<close>

definition isDigit :: "char \<Rightarrow> bool" where
  "isDigit c = (48 \<le> (of_char c :: nat) \<and> (of_char c :: nat) \<le> 57)"

text \<open>Tab, line feed, vertical tab, form feed, carriage return, space and the
  no-break space.\<close>

definition isWhiteSpace :: "char \<Rightarrow> bool" where
  "isWhiteSpace c = ((of_char c :: nat) \<in> {9, 10, 11, 12, 13, 32, 160})"

definition digitsValue :: "string \<Rightarrow> int" where
  "digitsValue ds = foldl (\<lambda>acc c. acc * 10 + (int (of_char c) - 48)) 0 ds"

definition parseDigits :: "string \<Rightarrow> int option" where
  "parseDigits cs =
     (let ds = takeWhile isDigit cs in if ds = [] then None else Some (digitsValue ds))"

fun leadingDigit :: "nat \<Rightarrow> nat" where
  "leadingDigit n = (if n < 10 then n else leadingDigit (n div 10))"

fun leadingSmallDigit :: "nat \<Rightarrow> real \<Rightarrow> int" where
  "leadingSmallDigit 0 a = 0"
| "leadingSmallDigit (Suc n) a = (if 1 \<le> a then \<lfloor>a\<rfloor> else leadingSmallDigit n (a * 10))"

definition numberDigits :: "real \<Rightarrow> int" where
  "numberDigits r =
     (if r = 0 then 0
      else if 10 ^ 21 \<le> abs r then sgn \<lfloor>r\<rfloor> * int (leadingDigit (nat \<lfloor>abs r\<rfloor>))
      else if abs r < 1 / 10 ^ 6 then (if r < 0 then - 1 else 1) * leadingSmallDigit 324 (abs r)
      else if 0 \<le> r then \<lfloor>r\<rfloor> else \<lceil>r\<rceil>)"

fun parseInt :: "jsval \<Rightarrow> int option" where
  "parseInt (JNum r) = Some (numberDigits r)"
| "parseInt (JStr cs) =
     (case dropWhile isWhiteSpace cs of
        [] \<Rightarrow> None
      | c # rest \<Rightarrow>
          if c = CHR ''-'' then map_option uminus (parseDigits rest)
          else if c = CHR ''+'' then parseDigits rest
          else parseDigits (c # rest))"
| "parseInt (JArr []) = None"
| "parseInt (JArr (v # vs)) = parseInt v"
| "parseInt _ = None"

definition getFrames :: "DataElements \<Rightarrow> int option" where
  "getFrames dataElements =
     (case dataElements ''00280008'' of
        None \<Rightarrow> Some 1
      | Some val \<Rightarrow> parseInt (elemAt val 0))"

text \<open>\<open>frames !== pixelBuffer.length / sliceSize\<close>: a division by zero gives no
  finite number, and \<open>NaN\<close> differs from everything.\<close>

definition framesDiffer :: "int option \<Rightarrow> nat \<Rightarrow> nat \<Rightarrow> bool" where
  "framesDiffer frames len sliceSize =
     (case frames of
        None \<Rightarrow> True
      | Some f \<Rightarrow> sliceSize = 0 \<or> real_of_int f \<noteq> real len / real sliceSize)"

text \<open>The shared functional groups: the orientation and the spacing of the first item,
  where its sequences have an item.\<close>

definition sharedGroups :: "FuncGroup list option \<Rightarrow> error + (Spacing option \<times> IOP option)" where
  "sharedGroups seq =
     (case seq of
        None \<Rightarrow> Inr (None, None)
      | Some [] \<Rightarrow> Inl TypeError
      | Some (funcGroup0 # _) \<Rightarrow>
          Inr (case pixelMeasuresSeq funcGroup0 of
                 None \<Rightarrow> None
               | Some [] \<Rightarrow> None
               | Some (m # _) \<Rightarrow> Some m,
               case planeOrientationSeq funcGroup0 of
                 None \<Rightarrow> None
               | Some [] \<Rightarrow> None
               | Some (ori # _) \<Rightarrow> Some ori))"

text \<open>The loop that checks the frame infos: it collects the distinct positions and
  settles the one orientation and the one spacing.\<close>

fun checkFrameInfos ::
  "FrameInfo list \<Rightarrow> posPat list \<Rightarrow> IOP option \<Rightarrow> Spacing option
     \<Rightarrow> error + (posPat list \<times> IOP option \<times> Spacing option)" where
  "checkFrameInfos [] framePosPats iop sp = Inr (framePosPats, iop, sp)"
| "checkFrameInfos (fi # fis) framePosPats iop sp =
     (let framePosPats' =
            (if \<not> includesPosPat framePosPats (imagePosPat fi)
             then framePosPats @ [imagePosPat fi] else framePosPats)
      in case (case imageOrientationPatient fi of
                 None \<Rightarrow> Inr iop
               | Some frameIop \<Rightarrow>
                  (case iop of
                     None \<Rightarrow> Inr (Some frameIop)
                   | Some ref \<Rightarrow>
                       if \<not> arraySortEquals (iopValues ref) (iopValues frameIop)
                       then Inl MultiOrientationUnsupported
                       else Inr iop)) of
           Inl e \<Rightarrow> Inl e
         | Inr iop' \<Rightarrow>
            (case (case spacing fi of
                     None \<Rightarrow> Inr sp
                   | Some frameSpacing \<Rightarrow>
                      (case sp of
                         None \<Rightarrow> Inr (Some frameSpacing)
                       | Some ref \<Rightarrow>
                           if \<not> spacingEquals ref frameSpacing
                           then Inl MultiSpacingUnsupported
                           else Inr sp)) of
               Inl e \<Rightarrow> Inl e
             | Inr sp' \<Rightarrow> checkFrameInfos fis framePosPats' iop' sp'))"

text \<open>The orientation matrix: row cosines, column cosines and their cross product as
  columns.\<close>

fun getOrientationMatrix :: "IOP \<Rightarrow> Matrix33" where
  "getOrientationMatrix (r0, r1, r2, c0, c1, c2) =
     (let rowCosines = Vector3D r0 r1 r2;
          colCosines = Vector3D c0 c1 c2;
          normal = crossProduct rowCosines colCosines
      in Matrix33 [
           getX rowCosines, getX colCosines, getX normal,
           getY rowCosines, getY colCosines, getY normal,
           getZ rowCosines, getZ colCosines, getZ normal])"

text \<open>The spacing used from here on: the slice spacing found from the geometry
  replaces the declared one when there is one and it differs.\<close>

fun getNewSpacing :: "Spacing \<Rightarrow> real option \<Rightarrow> Spacing" where
  "getNewSpacing (sx, sy, sz) geoSliceSpacing =
     (case geoSliceSpacing of
        None \<Rightarrow> (sx, sy, sz)
      | Some geo \<Rightarrow> if geo \<noteq> sz then (sx, sy, geo) else (sx, sy, sz))"

subsection \<open>Gap filling\<close>

text \<open>\<open>isNotSmall\<close>: the result of the origin distance test; the two wider
  tolerances are tried in turn (the warnings logged on the way are not part of the
  result).\<close>

definition isNotSmall :: "real \<Rightarrow> bool" where
  "isNotSmall val =
     (let res = val > REAL_WORLD_EPSILON in
      if res then
        (let res = val > REAL_WORLD_EPSILON * 10 in
         if \<not> res then res
         else val > REAL_WORLD_EPSILON * 100)
      else res)"

text \<open>
  The \<open>while\<close> loop that adds intermediate positions before the frame origin
  \<open>frameOrigin\<close>. The state is the point under test, its distance to the frame origin,
  the slice index and the positions collected; \<open>distPrevious\<close> is the distance at entry.
  A run that never ends has the value \<open>None\<close>.
\<close>

partial_function (option) addIntermediatePosPats ::
  "Geometry \<Rightarrow> Point3D \<Rightarrow> real \<Rightarrow> Point3D \<Rightarrow> real \<Rightarrow> nat \<Rightarrow> posPat option list
     \<Rightarrow> (error + nat \<times> posPat option list) option" where
  "addIntermediatePosPats tmpGeometry frameOrigin distPrevious point dst sliceIndex posPats =
     (if isNotSmall dst then
        (let posPats' = posPats @ [Some (pointX point, pointY point, pointZ point)];
             sliceIndex' = sliceIndex + 1;
             point' = indexToWorld tmpGeometry (0, 0, sliceIndex');
             dst' = getDistance frameOrigin point'
         in if dst' > distPrevious then Some (Inl IntermediatePositionDivergence)
            else addIntermediatePosPats tmpGeometry frameOrigin distPrevious
                   point' dst' sliceIndex' posPats')
      else Some (Inr (sliceIndex, posPats)))"

text \<open>The \<open>for\<close> loop over the sorted frame positions after the first.\<close>

fun addPosPats ::
  "Geometry \<Rightarrow> posPat list \<Rightarrow> nat \<Rightarrow> posPat option list
     \<Rightarrow> (error + posPat option list) option" where
  "addPosPats tmpGeometry [] sliceIndex posPats = Some (Inr posPats)"
| "addPosPats tmpGeometry (framePosPat # rest) sliceIndex posPats =
     (let sliceIndex' = sliceIndex + 1;
          point = indexToWorld tmpGeometry (0, 0, sliceIndex');
          frameOrigin = point3DFromArray framePosPat;
          dst = getDistance frameOrigin point;
          distPrevious = dst
      in case addIntermediatePosPats tmpGeometry frameOrigin distPrevious
                point dst sliceIndex' posPats of
           None \<Rightarrow> None
         | Some (Inl e) \<Rightarrow> Some (Inl e)
         | Some (Inr (sliceIndex'', posPats')) \<Rightarrow>
             addPosPats tmpGeometry rest sliceIndex'' (posPats' @ [Some framePosPat]))"

text \<open>The positions of the output slices. With no frame at all, \<open>framePosPats[0]\<close> is
  \<open>undefined\<close> and is still pushed.\<close>

definition addMissingPosPats ::
  "Matrix33 \<Rightarrow> Spacing \<Rightarrow> posPat list \<Rightarrow> (error + posPat option list) option" where
  "addMissingPosPats orientationMatrix newSpacing framePosPats =
     (case framePosPats of
        [] \<Rightarrow> Some (Inr [None])
      | first # rest \<Rightarrow>
          addPosPats \<lparr>geoOrigin = point3DFromArray first, geoSpacing = newSpacing,
                       geoOrientation = orientationMatrix\<rparr>
            rest 0 [Some first])"

subsection \<open>Merging the frame buffers\<close>

definition findSegment :: "Segment list \<Rightarrow> int \<Rightarrow> Segment option" where
  "findSegment segments n = find (\<lambda>item. number item = n) segments"

text \<open>The body of the loop over the samples of one frame.\<close>

definition mergeSample ::
  "arrayKind \<Rightarrow> bool \<Rightarrow> Segment option \<Rightarrow> int list \<Rightarrow> nat \<Rightarrow> int \<Rightarrow> nat \<Rightarrow> int list
     \<Rightarrow> error + int list" where
  "mergeSample k storeAsRGB frameSegment pixelBuffer frameOffset sliceOffset l buffer =
     (if readSample pixelBuffer (frameOffset + l) \<noteq> Some 0 then
        (let mul = (if storeAsRGB then 3 else 1);
             offset = mul * (sliceOffset + int l)
         in if storeAsRGB then
              (case frameSegment of
                 None \<Rightarrow> Inl TypeError
               | Some seg \<Rightarrow>
                  (case displayRGBValue seg of
                     None \<Rightarrow> Inl TypeError
                   | Some (r, g, b) \<Rightarrow>
                       Inr (writeSample k
                             (writeSample k
                               (writeSample k buffer offset (Some r))
                               (offset + 1) (Some g))
                             (offset + 2) (Some b))))
            else
              (case frameSegment of
                 None \<Rightarrow> Inl TypeError
               | Some seg \<Rightarrow> Inr (writeSample k buffer offset (displayValue seg))))
      else Inr buffer)"

fun mergeSamples ::
  "arrayKind \<Rightarrow> bool \<Rightarrow> Segment option \<Rightarrow> int list \<Rightarrow> nat \<Rightarrow> int \<Rightarrow> nat list \<Rightarrow> int list
     \<Rightarrow> error + int list" where
  "mergeSamples k storeAsRGB frameSegment pixelBuffer frameOffset sliceOffset [] buffer =
     Inr buffer"
| "mergeSamples k storeAsRGB frameSegment pixelBuffer frameOffset sliceOffset (l # ls) buffer =
     (case mergeSample k storeAsRGB frameSegment pixelBuffer frameOffset sliceOffset l buffer of
        Inl e \<Rightarrow> Inl e
      | Inr buffer' \<Rightarrow>
          mergeSamples k storeAsRGB frameSegment pixelBuffer frameOffset sliceOffset ls buffer')"

text \<open>The loop over the frames; \<open>f\<close> is the number of the frame at the head of the
  list.\<close>

fun mergeFrames ::
  "arrayKind \<Rightarrow> bool \<Rightarrow> Segment list \<Rightarrow> posPat option list \<Rightarrow> nat \<Rightarrow> int list
     \<Rightarrow> FrameInfo list \<Rightarrow> nat \<Rightarrow> int list \<Rightarrow> error + int list" where
  "mergeFrames k storeAsRGB segments posPats sliceSize pixelBuffer [] f buffer = Inr buffer"
| "mergeFrames k storeAsRGB segments posPats sliceSize pixelBuffer (frameInfo # rest) f buffer =
     (let sliceIndex = findIndexPosPat posPats (Some (imagePosPat frameInfo));
          frameOffset = sliceSize * f;
          sliceOffset = int sliceSize * sliceIndex;
          frameSegment = findSegment segments (refSegmentNumber frameInfo)
      in case mergeSamples k storeAsRGB frameSegment pixelBuffer frameOffset sliceOffset
                [0..<sliceSize] buffer of
           Inl e \<Rightarrow> Inl e
         | Inr buffer' \<Rightarrow>
             mergeFrames k storeAsRGB segments posPats sliceSize pixelBuffer rest (f + 1) buffer')"

subsection \<open>The image and its meta data\<close>

record Meta =
  metaTags :: "string \<Rightarrow> jsval option"
  DimensionOrganizationSequence :: jsval
  DimensionIndexSequence :: "DimensionIndex list"
  customSegments :: "Segment list"
  customFrameInfos :: "FrameInfo list"
  SOPInstanceUID :: jsval
  numberOfFiles :: nat

text \<open>
  The image handed to the caller: the geometry (one origin per slice, the size as
  columns, rows and slices, the spacing and the orientation), the buffer, one uid per
  slice, whether the photometric interpretation was set to RGB, and the meta data.
\<close>

record Image =
  imageOrigins :: "Point3D option list"
  imageSize :: "nat \<times> nat \<times> nat"
  imageSpacing :: Spacing
  imageOrientation :: Matrix33
  imageBuffer :: TypedArray
  imageUids :: "nat list"
  imageRGB :: bool
  imageMeta :: Meta

definition safeGet :: "DataElements \<Rightarrow> string \<Rightarrow> jsval" where
  "safeGet dataElements key =
     (case dataElements key of
        None \<Rightarrow> JUndefined
      | Some val \<Rightarrow> elemAt val 0)"

text \<open>The meta properties read with \<open>safeGet\<close>, each with its tag key.\<close>

definition safeMetaKeys :: "(string \<times> string) list" where
  "safeMetaKeys = [
     (''StudyDate'', ''00080020''), (''StudyTime'', ''00080030''),
     (''StudyInstanceUID'', ''0020000D''), (''StudyID'', ''00200010''),
     (''SeriesInstanceUID'', ''0020000E''), (''SeriesNumber'', ''00200011''),
     (''ReferringPhysicianName'', ''00080090''),
     (''PatientName'', ''00100010''), (''PatientID'', ''00100020''),
     (''PatientBirthDate'', ''00100030''), (''PatientSex'', ''00100040''),
     (''Manufacturer'', ''00080070''), (''ManufacturerModelName'', ''00081090''),
     (''DeviceSerialNumber'', ''00181000''), (''SoftwareVersions'', ''00181020'')]"

text \<open>The two optional meta properties, set only when their element is there.\<close>

definition optionalMetaKeys :: "(string \<times> string) list" where
  "optionalMetaKeys = [
     (''FrameOfReferenceUID'', ''00200052''), (''LossyImageCompression'', ''00282110'')]"

definition getMetaTags :: "DataElements \<Rightarrow> string \<Rightarrow> jsval option" where
  "getMetaTags dataElements =
     (let meta = foldl (\<lambda>m (prop, key). m(prop \<mapsto> safeGet dataElements key))
                   getDefaultDicomSegJson safeMetaKeys
      in foldl (\<lambda>m (prop, key).
                 (case dataElements key of
                    None \<Rightarrow> m
                  | Some val \<Rightarrow> m(prop \<mapsto> elemAt val 0)))
           meta optionalMetaKeys)"

subsection \<open>\<open>MaskFactory.create\<close>\<close>

text \<open>What the first part of \<open>create\<close> settles before the positions are completed.\<close>

record Reconciled =
  recSize2D :: "nat \<times> nat"
  recSliceSize :: nat
  recDimension :: Dimension
  recSegments :: "Segment list"
  recStoreAsRGB :: bool
  recFrameInfos :: "FrameInfo list"
  recFramePosPats :: "posPat list"
  recOrientationMatrix :: Matrix33
  recNewSpacing :: Spacing

text \<open>
  \<open>create\<close> from the check of the required tags to the spacing found from the
  geometry, in the order of the source: every \<open>throw\<close> is an \<open>Inl\<close>.
\<close>

definition reconcile :: "SegData \<Rightarrow> TypedArray \<Rightarrow> error + Reconciled" where
  "reconcile dataElements pixelBuffer =
     (case checkTags (elements dataElements) RequiredDicomSegTags of
        Inl e \<Rightarrow> Inl e
      | Inr _ \<Rightarrow>
     (let size2D = image2DSize dataElements;
          sliceSize = fst size2D * snd size2D * 1;
          frames = getFrames (elements dataElements)
      in if framesDiffer frames (length (samples pixelBuffer)) sliceSize
         then Inl FrameCountMismatch
         else
     (case getDimensionOrganization (elements dataElements) of
        Inl e \<Rightarrow> Inl e
      | Inr dimension \<Rightarrow>
     (case segSequence dataElements of
        None \<Rightarrow> Inl MissingSegmentSequence
      | Some segments \<Rightarrow>
     (let storeAsRGB = list_ex (\<lambda>segment. displayRGBValue segment \<noteq> None) segments in
      case sharedGroups (sharedFunctionalGroupsSeq dataElements) of
        Inl e \<Rightarrow> Inl e
      | Inr (sharedSpacing, sharedIop) \<Rightarrow>
     (case perFrameFuncGroupSequence dataElements of
        None \<Rightarrow> Inl MissingPerFrameSequence
      | Some frameInfos \<Rightarrow>
         if frames \<noteq> Some (int (length frameInfos)) then Inl PerFrameCountMismatch
         else
     (case checkFrameInfos frameInfos [] sharedIop sharedSpacing of
        Inl e \<Rightarrow> Inl e
      | Inr (framePosPats, iop, sp) \<Rightarrow>
     (case sp of
        None \<Rightarrow> Inl MissingSpacing
      | Some spacing' \<Rightarrow>
     (case iop of
        None \<Rightarrow> Inl MissingOrientation
      | Some imageOrientationPatient' \<Rightarrow>
     (let orientationMatrix = getOrientationMatrix imageOrientationPatient' in
      case arraySort (getComparePosPat orientationMatrix) framePosPats of
        Inl e \<Rightarrow> Inl e
      | Inr sortedPosPats \<Rightarrow>
     (let frameOrigins = map point3DFromArray sortedPosPats in
      case getSliceGeometrySpacing frameOrigins orientationMatrix of
        Inl e \<Rightarrow> Inl e
      | Inr geoSliceSpacing \<Rightarrow>
          Inr \<lparr>recSize2D = size2D, recSliceSize = sliceSize, recDimension = dimension,
               recSegments = segments, recStoreAsRGB = storeAsRGB,
               recFrameInfos = frameInfos, recFramePosPats = sortedPosPats,
               recOrientationMatrix = orientationMatrix,
               recNewSpacing = getNewSpacing spacing' geoSliceSpacing\<rparr>)))))))))))"

text \<open>
  \<open>create\<close> from the output buffer to the image: the buffer is allocated for all
  slices and filled with zeros, the frames are merged into it, and the meta data is put
  together; \<open>SOPInstanceUID\<close> is read without a check that the element is there.
\<close>

definition assemble ::
  "SegData \<Rightarrow> TypedArray \<Rightarrow> Reconciled \<Rightarrow> posPat option list \<Rightarrow> error + Image" where
  "assemble dataElements pixelBuffer rec posPats =
     (let numberOfSlices = length posPats;
          sliceSize = recSliceSize rec;
          mul = (if recStoreAsRGB rec then 3 else 1);
          buffer = replicate (mul * sliceSize * numberOfSlices) (0::int)
      in case mergeFrames (kind pixelBuffer) (recStoreAsRGB rec) (recSegments rec) posPats
                sliceSize (samples pixelBuffer) (recFrameInfos rec) 0 buffer of
           Inl e \<Rightarrow> Inl e
         | Inr buffer' \<Rightarrow>
            (case elements dataElements ''00080018'' of
               None \<Rightarrow> Inl TypeError
             | Some sopVal \<Rightarrow>
                 Inr \<lparr>imageOrigins = map (map_option point3DFromArray) posPats,
                      imageSize = (fst (recSize2D rec), snd (recSize2D rec), numberOfSlices),
                      imageSpacing = recNewSpacing rec,
                      imageOrientation = recOrientationMatrix rec,
                      imageBuffer = \<lparr>kind = kind pixelBuffer, samples = buffer'\<rparr>,
                      imageUids = [0..<numberOfSlices],
                      imageRGB = recStoreAsRGB rec,
                      imageMeta = \<lparr>
                        metaTags = getMetaTags (elements dataElements),
                        DimensionOrganizationSequence = organizations (recDimension rec),
                        DimensionIndexSequence = indices (recDimension rec),
                        customSegments = recSegments rec,
                        customFrameInfos = recFrameInfos rec,
                        SOPInstanceUID = elemAt sopVal 0,
                        numberOfFiles = numberOfSlices\<rparr>\<rparr>))"

text \<open>\<open>MaskFactory.create\<close>: \<open>None\<close> when the completion of the positions never
  ends, otherwise the error thrown or the image returned.\<close>

definition create :: "SegData \<Rightarrow> TypedArray \<Rightarrow> (error + Image) option" where
  "create dataElements pixelBuffer =
     (case reconcile dataElements pixelBuffer of
        Inl e \<Rightarrow> Some (Inl e)
      | Inr rec \<Rightarrow>
         (case addMissingPosPats (recOrientationMatrix rec) (recNewSpacing rec)
                 (recFramePosPats rec) of
            None \<Rightarrow> None
          | Some (Inl e) \<Rightarrow> Some (Inl e)
          | Some (Inr posPats) \<Rightarrow> Some (assemble dataElements pixelBuffer rec posPats)))"

section \<open>The orientation code as specified\<close>

text \<open>The column \<open>j\<close> of a matrix, as \<open>getOrientationStringLPS\<close> reads it.\<close>

definition column :: "Matrix33 \<Rightarrow> nat \<Rightarrow> Vector3D" where
  "column m j = Vector3D (get m 0 j) (get m 1 j) (get m 2 j)"

text \<open>
  The orientation code in the words of the specification: per column one letter, that of
  the axis of largest magnitude above the threshold, the first of x, y, z among equals,
  chosen by sign; no letter for a column without such an axis.
\<close>

definition dominantLetter :: "Vector3D \<Rightarrow> string" where
  "dominantLetter v =
     (let ax = abs (getX v); ay = abs (getY v); az = abs (getZ v) in
      if ax > threshold \<and> ax \<ge> ay \<and> ax \<ge> az
        then [if getX v < 0 then CHR ''R'' else CHR ''L'']
      else if ay > threshold \<and> ay \<ge> ax \<and> ay \<ge> az
        then [if getY v < 0 then CHR ''A'' else CHR ''P'']
      else if az > threshold \<and> az \<ge> ax \<and> az \<ge> ay
        then [if getZ v < 0 then CHR ''I'' else CHR ''S'']
      else [])"

definition claimedOrientationCode :: "Matrix33 \<Rightarrow> string" where
  "claimedOrientationCode m =
     dominantLetter (column m 0) @ dominantLetter (column m 1) @ dominantLetter (column m 2)"

text \<open>A vector has a strictly dominant axis when one magnitude is above the threshold
  and larger than both others; it has a single axis when exactly one magnitude is above
  the threshold.\<close>

definition strictlyDominant :: "Vector3D \<Rightarrow> bool" where
  "strictlyDominant v =
     (let ax = abs (getX v); ay = abs (getY v); az = abs (getZ v) in
      (ax > threshold \<and> ax > ay \<and> ax > az)
      \<or> (ay > threshold \<and> ay > ax \<and> ay > az)
      \<or> (az > threshold \<and> az > ax \<and> az > ay))"

definition singleAxis :: "Vector3D \<Rightarrow> bool" where
  "singleAxis v =
     (let ax = abs (getX v); ay = abs (getY v); az = abs (getZ v) in
      (ax > threshold \<and> ay \<le> threshold \<and> az \<le> threshold)
      \<or> (ay > threshold \<and> ax \<le> threshold \<and> az \<le> threshold)
      \<or> (az > threshold \<and> ax \<le> threshold \<and> ay \<le> threshold))"

text \<open>
  The letters that follow the letter of a strictly dominant axis: of the two remaining
  axes, each given with its magnitude and its letter, the strictly larger one if it is
  above the threshold, and after it the other one if that is above the threshold too;
  none when neither is strictly larger or the larger one is not above the threshold.
\<close>

definition remainingLetters :: "real \<times> char \<Rightarrow> real \<times> char \<Rightarrow> string" where
  "remainingLetters p q =
     (if fst p > threshold \<and> fst p > fst q
        then snd p # (if fst q > threshold then [snd q] else [])
      else if fst q > threshold \<and> fst q > fst p
        then snd q # (if fst p > threshold then [snd p] else [])
      else [])"

definition restLetters :: "Vector3D \<Rightarrow> string" where
  "restLetters v =
     (let ax = abs (getX v); ay = abs (getY v); az = abs (getZ v);
          lx = (if getX v < 0 then CHR ''R'' else CHR ''L'');
          ly = (if getY v < 0 then CHR ''A'' else CHR ''P'');
          lz = (if getZ v < 0 then CHR ''I'' else CHR ''S'')
      in if ax > ay \<and> ax > az then remainingLetters (ay, ly) (az, lz)
         else if ay > ax \<and> ay > az then remainingLetters (ax, lx) (az, lz)
         else remainingLetters (ax, lx) (ay, ly))"

section \<open>Example objects\<close>

text \<open>
  A segmentation object that passes every check of \<open>create\<close>: two frames of two by
  two samples at the positions (0, 0, 0) and (0, 0, 4), the axial orientation and the
  spacing (1, 1, 2) in the shared functional groups, and one segment of display value 5.
\<close>

definition exampleElements :: DataElements where
  "exampleElements = map_of [
     (''00020010'', [JStr ''1.2.840.10008.1.2.1'']),
     (''00020002'', [JStr ''1.2.840.10008.5.1.4.1.1.66.4'']),
     (''00080060'', [JStr ''SEG'']),
     (''00620001'', [JStr ''BINARY'']),
     (''00209311'', [JStr ''3D'']),
     (''00080008'', [JStr ''DERIVED'', JStr ''PRIMARY'']),
     (''00280002'', [JNum 1]),
     (''00280004'', [JStr ''MONOCHROME2'']),
     (''00280103'', [JNum 0]),
     (''00280100'', [JNum 1]),
     (''00280101'', [JNum 1]),
     (''00280102'', [JNum 0]),
     (''00280008'', [JNum 2]),
     (''00209221'', [JItem [(''00209164'', [JStr ''1.2.3''])]]),
     (''00080018'', [JStr ''1.2.3.4''])]"

definition exampleFrame :: "int \<Rightarrow> posPat \<Rightarrow> IOP option \<Rightarrow> FrameInfo" where
  "exampleFrame n pos iop =
     \<lparr>refSegmentNumber = n, imagePosPat = pos, imageOrientationPatient = iop,
      spacing = None\<rparr>"

definition exampleSeg :: SegData where
  "exampleSeg = \<lparr>
     elements = exampleElements,
     image2DSize = (2, 2),
     segSequence = Some [\<lparr>number = 1, displayValue = Some 5, displayRGBValue = None\<rparr>],
     sharedFunctionalGroupsSeq = Some [\<lparr>planeOrientationSeq = Some [(1, 0, 0, 0, 1, 0)],
                                        pixelMeasuresSeq = Some [(1, 1, 2)]\<rparr>],
     perFrameFuncGroupSequence = Some [exampleFrame 1 (0, 0, 0) None,
                                       exampleFrame 1 (0, 0, 4) None]\<rparr>"

text \<open>Two frames of four samples each, all set.\<close>

definition examplePixels :: TypedArray where
  "examplePixels = \<lparr>kind = Uint8, samples = [1, 1, 1, 1, 1, 1, 1, 1]\<rparr>"

text \<open>The same object without the Modality element.\<close>

definition exampleNoModality :: SegData where
  "exampleNoModality = exampleSeg\<lparr>elements := exampleElements(''00080060'' := None)\<rparr>"

text \<open>The same object with no shared orientation and two frames whose orientations
  differ: row (1, 0, 0) and column (0, 1, 0) for the first, row (0, 1, 0) and column
  (1, 0, 0) for the second.\<close>

definition exampleTwoOrientations :: SegData where
  "exampleTwoOrientations = exampleSeg\<lparr>
     sharedFunctionalGroupsSeq := Some [\<lparr>planeOrientationSeq = None,
                                         pixelMeasuresSeq = Some [(1, 1, 4)]\<rparr>],
     perFrameFuncGroupSequence := Some [exampleFrame 1 (0, 0, 0) (Some (1, 0, 0, 0, 1, 0)),
                                        exampleFrame 1 (0, 0, 4) (Some (0, 1, 0, 1, 0, 0))]\<rparr>"

text \<open>The same object with a second frame that refers to segment 2, which the segment
  sequence does not have; and pixels whose second frame has no sample set.\<close>

definition exampleUnknownSegment :: SegData where
  "exampleUnknownSegment = exampleSeg\<lparr>
     perFrameFuncGroupSequence := Some [exampleFrame 1 (0, 0, 0) None,
                                        exampleFrame 2 (0, 0, 4) None]\<rparr>"

definition exampleSecondFrameEmpty :: TypedArray where
  "exampleSecondFrameEmpty = \<lparr>kind = Uint8, samples = [1, 1, 1, 1, 0, 0, 0, 0]\<rparr>"

text \<open>What a result shows of the image: the origins, the size and the samples.\<close>

definition shown :: "(error + Image) option \<Rightarrow> (error + Point3D option list \<times> (nat \<times> nat \<times> nat) \<times> int list) option" where
  "shown res = map_option (map_sum id
     (\<lambda>img. (imageOrigins img, imageSize img, samples (imageBuffer img)))) res"



text \<open>
  The example object with three frames, the third at height \<open>z\<close>; the example object
  with its second frame moved within the plane of the first; and what the first part of
  \<open>create\<close> settles for objects like these.
\<close>

definition exampleThreeFrames :: "real \<Rightarrow> SegData" where
  "exampleThreeFrames z = exampleSeg\<lparr>
     elements := exampleElements(''00280008'' \<mapsto> [JNum 3]),
     perFrameFuncGroupSequence := Some [exampleFrame 1 (0, 0, 0) None,
                                        exampleFrame 1 (0, 0, 4) None,
                                        exampleFrame 1 (0, 0, z) None]\<rparr>"

definition exampleThreePixels :: TypedArray where
  "exampleThreePixels = \<lparr>kind = Uint8, samples = [1, 1, 1, 1, 1, 1, 1, 1, 1, 1, 1, 1]\<rparr>"

definition exampleInPlane :: SegData where
  "exampleInPlane = exampleSeg\<lparr>
     perFrameFuncGroupSequence := Some [exampleFrame 1 (0, 0, 0) None,
                                        exampleFrame 1 (1, 0, 0) None]\<rparr>"

definition exampleRec :: "FrameInfo list \<Rightarrow> posPat list \<Rightarrow> real \<Rightarrow> Reconciled" where
  "exampleRec frameInfos posPats sliceSpacing =
     \<lparr>recSize2D = (2, 2), recSliceSize = 4,
      recDimension = \<lparr>organizations = JStr ''1.2.3'', indices = []\<rparr>,
      recSegments = [\<lparr>number = 1, displayValue = Some 5, displayRGBValue = None\<rparr>],
      recStoreAsRGB = False,
      recFrameInfos = frameInfos,
      recFramePosPats = posPats,
      recOrientationMatrix = Matrix33 [1, 0, 0, 0, 1, 0, 0, 0, 1],
      recNewSpacing = (1, 1, sliceSpacing)\<rparr>"

text \<open>The example object with no frame at all, and no pixels.\<close>

definition exampleNoFrames :: SegData where
  "exampleNoFrames = exampleSeg\<lparr>
     elements := exampleElements(''00280008'' \<mapsto> [JNum 0]),
     perFrameFuncGroupSequence := Some []\<rparr>"

definition exampleNoPixels :: TypedArray where
  "exampleNoPixels = \<lparr>kind = Uint8, samples = []\<rparr>"

section \<open>Gap filling as specified\<close>

text \<open>The distance from the frame origin to the point of slice index \<open>k\<close>, which the
  loop of \<open>create\<close> tests.\<close>

definition sliceDistance :: "Geometry \<Rightarrow> Point3D \<Rightarrow> nat \<Rightarrow> real" where
  "sliceDistance g frameOrigin k = getDistance frameOrigin (indexToWorld g (0, 0, k))"

text \<open>The vector from the point of one slice index to the point of the next: the third
  column of the orientation matrix times the slice spacing.\<close>

fun sliceStep :: "Matrix33 \<Rightarrow> Spacing \<Rightarrow> real \<times> real \<times> real" where
  "sliceStep m (sx, sy, sz) = (get m 0 2 * sz, get m 1 2 * sz, get m 2 2 * sz)"

text \<open>The position that the loop pushes for a point.\<close>

definition pointPosPat :: "Point3D \<Rightarrow> posPat" where
  "pointPosPat p = (pointX p, pointY p, pointZ p)"

text \<open>
  The projection of a position on the slice normal, by which the positions are sorted:
  its third coordinate under the inverse of the orientation matrix (0 when the matrix
  has no inverse and nothing can be projected).
\<close>

definition normalKey :: "Matrix33 \<Rightarrow> posPat \<Rightarrow> real" where
  "normalKey m p =
     (case getInverse m of
        None \<Rightarrow> 0
      | Some invOrientation \<Rightarrow> pointZ (multiplyPoint3D invOrientation (point3DFromArray p)))"

text \<open>
  Positions are uniformly spaced by \<open>d\<close> when each is the one before it moved by
  \<open>d\<close> along the slice normal, the third column of the orientation matrix: exactly
  one slice spacing \<open>d\<close> apart.
\<close>

definition normalStep :: "Matrix33 \<Rightarrow> real \<Rightarrow> real \<times> real \<times> real" where
  "normalStep m d = (get m 0 2 * d, get m 1 2 * d, get m 2 2 * d)"

fun addStep :: "posPat \<Rightarrow> real \<times> real \<times> real \<Rightarrow> posPat" where
  "addStep (x, y, z) (vx, vy, vz) = (x + vx, y + vy, z + vz)"

fun uniformlySpaced :: "Matrix33 \<Rightarrow> real \<Rightarrow> posPat list \<Rightarrow> bool" where
  "uniformlySpaced m d (p # q # rest) =
     (q = addStep p (normalStep m d) \<and> uniformlySpaced m d (q # rest))"
| "uniformlySpaced m d [p] = True"
| "uniformlySpaced m d [] = True"

text \<open>The geometry \<open>tmpGeometry\<close> of \<open>create\<close>: the first sorted position as origin,
  the spacing used from there on and the orientation matrix.\<close>

definition tmpGeometry :: "Reconciled \<Rightarrow> Geometry" where
  "tmpGeometry rec = \<lparr>geoOrigin = point3DFromArray (hd (recFramePosPats rec)),
                        geoSpacing = recNewSpacing rec,
                        geoOrientation = recOrientationMatrix rec\<rparr>"

section \<open>Properties of the tag table\<close>

lemma names_distinct: "distinct (map name RequiredDicomSegTags)"
  by (simp add: RequiredDicomSegTags_def)

lemma fold_upd:
  "distinct (map name ds) \<Longrightarrow> d \<in> set ds \<Longrightarrow>
   foldl (\<lambda>tags reqTag. tags(name reqTag \<mapsto> elemAt (tagEnum reqTag) 0)) m ds (name d)
     = Some (elemAt (tagEnum d) 0)"
proof (induction ds arbitrary: m rule: rev_induct)
  case Nil
  then show ?case by simp
next
  case (snoc x xs)
  show ?case
  proof (cases "d = x")
    case True
    then show ?thesis by simp
  next
    case False
    with snoc.prems have mem: "d \<in> set xs" and ne: "name d \<noteq> name x"
      and dist: "distinct (map name xs)" by (auto simp: image_iff)
    from snoc.IH[OF dist mem] ne show ?thesis by simp
  qed
qed

text \<open>
  C9: the table lists thirteen named definitions over twelve distinct tags (the tag
  \<open>00020002\<close> stands under two names), twelve of them of requirement type \<open>1\<close>; the
  default-value projection \<open>getDefaultDicomSegJson\<close> maps the name of every entry to the
  first of its accepted values.
\<close>

theorem required_tags_table:
  "length (filter (\<lambda>d. tagType d = JStr ''1'') RequiredDicomSegTags) = 12
   \<and> card (set (map tag RequiredDicomSegTags)) = 12
   \<and> (\<forall>d \<in> set RequiredDicomSegTags.
         getDefaultDicomSegJson (name d) = Some (elemAt (tagEnum d) 0))"
proof (intro conjI ballI)
  show "length (filter (\<lambda>d. tagType d = JStr ''1'') RequiredDicomSegTags) = 12"
    by (simp add: RequiredDicomSegTags_def)
  show "card (set (map tag RequiredDicomSegTags)) = 12"
    by (simp add: RequiredDicomSegTags_def)
  fix d assume "d \<in> set RequiredDicomSegTags"
  then show "getDefaultDicomSegJson (name d) = Some (elemAt (tagEnum d) 0)"
    unfolding getDefaultDicomSegJson_def using fold_upd[OF names_distinct] by blast
qed

theorem required_tags_table_witness:
  "\<lparr>name = ''Modality'', tag = ''00080060'', tagType = JStr ''1'', tagEnum = [JStr ''SEG'']\<rparr>
     \<in> set RequiredDicomSegTags
   \<and> getDefaultDicomSegJson ''Modality'' = Some (JStr ''SEG'')"
proof -
  have mem: "\<lparr>name = ''Modality'', tag = ''00080060'', tagType = JStr ''1'', tagEnum = [JStr ''SEG'']\<rparr>
     \<in> set RequiredDicomSegTags"
    by (simp add: RequiredDicomSegTags_def)
  from required_tags_table mem show ?thesis
    by (fastforce simp: elemAt_def)
qed

section \<open>Properties of the orientation code\<close>

lemma vectorLoop_length: "length (vectorLoop n oX oY oZ a) \<le> n"
  by (induction n arbitrary: a) auto

lemma vector_not_dominant:
  "\<not> strictlyDominant v \<Longrightarrow> getVectorStringLPS v = []"
  by (auto simp: strictlyDominant_def getVectorStringLPS_def Let_def numeral_3_eq_3)

lemma vectorLoop_x:
  "getX a > threshold \<Longrightarrow> getX a > getY a \<Longrightarrow> getX a > getZ a \<Longrightarrow>
   vectorLoop (Suc n) oX oY oZ a = oX # vectorLoop n oX oY oZ (Vector3D 0 (getY a) (getZ a))"
  by simp

lemma vectorLoop_y:
  "getY a > threshold \<Longrightarrow> getY a > getX a \<Longrightarrow> getY a > getZ a \<Longrightarrow>
   vectorLoop (Suc n) oX oY oZ a = oY # vectorLoop n oX oY oZ (Vector3D (getX a) 0 (getZ a))"
  by simp

lemma vectorLoop_z:
  "getZ a > threshold \<Longrightarrow> getZ a > getX a \<Longrightarrow> getZ a > getY a \<Longrightarrow>
   vectorLoop (Suc n) oX oY oZ a = oZ # vectorLoop n oX oY oZ (Vector3D (getX a) (getY a) 0)"
  by simp

lemma getVectorStringLPS_Suc:
  "getVectorStringLPS v =
     vectorLoop (Suc 2)
       (if getX v < 0 then CHR ''R'' else CHR ''L'')
       (if getY v < 0 then CHR ''A'' else CHR ''P'')
       (if getZ v < 0 then CHR ''I'' else CHR ''S'')
       (Vector3D (abs (getX v)) (abs (getY v)) (abs (getZ v)))"
proof -
  have "(3::nat) = Suc 2" by simp
  then show ?thesis unfolding getVectorStringLPS_def Let_def by (rule arg_cong)
qed

lemma vectorLoop_none:
  "getX a \<le> threshold \<Longrightarrow> getY a \<le> threshold \<Longrightarrow> getZ a \<le> threshold \<Longrightarrow>
   vectorLoop n oX oY oZ a = []"
  by (cases n) auto

lemma threshold_pos: "0 < threshold"
  by (simp add: threshold_def)

lemma vector_single:
  assumes "singleAxis v"
  shows "getVectorStringLPS v = dominantLetter v \<and> length (getVectorStringLPS v) = 1"
proof -
  let ?a = "Vector3D (abs (getX v)) (abs (getY v)) (abs (getZ v))"
  consider (x) "getX ?a > threshold" "getY ?a \<le> threshold" "getZ ?a \<le> threshold"
    | (y) "getY ?a > threshold" "getX ?a \<le> threshold" "getZ ?a \<le> threshold"
    | (z) "getZ ?a > threshold" "getX ?a \<le> threshold" "getY ?a \<le> threshold"
    using assms unfolding singleAxis_def Let_def by auto
  then show ?thesis
  proof cases
    case x
    then have gt: "getX ?a > getY ?a" "getX ?a > getZ ?a" by linarith+
    from x have d: "dominantLetter v = [if getX v < 0 then CHR ''R'' else CHR ''L'']"
      unfolding dominantLetter_def Let_def by simp
    have "vectorLoop 2 (if getX v < 0 then CHR ''R'' else CHR ''L'')
            (if getY v < 0 then CHR ''A'' else CHR ''P'')
            (if getZ v < 0 then CHR ''I'' else CHR ''S'')
            (Vector3D 0 (getY ?a) (getZ ?a)) = []"
      using x threshold_pos by (intro vectorLoop_none) simp_all
    then show ?thesis
      unfolding getVectorStringLPS_Suc vectorLoop_x[OF x(1) gt] d by simp
  next
    case y
    then have gt: "getY ?a > getX ?a" "getY ?a > getZ ?a" by linarith+
    from y have d: "dominantLetter v = [if getY v < 0 then CHR ''A'' else CHR ''P'']"
      unfolding dominantLetter_def Let_def by simp
    have "vectorLoop 2 (if getX v < 0 then CHR ''R'' else CHR ''L'')
            (if getY v < 0 then CHR ''A'' else CHR ''P'')
            (if getZ v < 0 then CHR ''I'' else CHR ''S'')
            (Vector3D (getX ?a) 0 (getZ ?a)) = []"
      using y threshold_pos by (intro vectorLoop_none) simp_all
    then show ?thesis
      unfolding getVectorStringLPS_Suc vectorLoop_y[OF y(1) gt] d by simp
  next
    case z
    then have gt: "getZ ?a > getX ?a" "getZ ?a > getY ?a" by linarith+
    from z have d: "dominantLetter v = [if getZ v < 0 then CHR ''I'' else CHR ''S'']"
      unfolding dominantLetter_def Let_def by simp
    have "vectorLoop 2 (if getX v < 0 then CHR ''R'' else CHR ''L'')
            (if getY v < 0 then CHR ''A'' else CHR ''P'')
            (if getZ v < 0 then CHR ''I'' else CHR ''S'')
            (Vector3D (getX ?a) (getY ?a) 0) = []"
      using z threshold_pos by (intro vectorLoop_none) simp_all
    then show ?thesis
      unfolding getVectorStringLPS_Suc vectorLoop_z[OF z(1) gt] d by simp
  qed
qed

lemma vectorLoop_two_x:
  "vectorLoop 2 oX oY oZ (Vector3D 0 b c) = remainingLetters (b, oY) (c, oZ)"
  using threshold_pos
  by (auto simp: remainingLetters_def numeral_2_eq_2)

lemma vectorLoop_two_y:
  "vectorLoop 2 oX oY oZ (Vector3D a 0 c) = remainingLetters (a, oX) (c, oZ)"
  using threshold_pos
  by (auto simp: remainingLetters_def numeral_2_eq_2)

lemma vectorLoop_two_z:
  "vectorLoop 2 oX oY oZ (Vector3D a b 0) = remainingLetters (a, oX) (b, oY)"
  using threshold_pos
  by (auto simp: remainingLetters_def numeral_2_eq_2)

lemma vector_dominant_rest:
  assumes "strictlyDominant v"
  shows "getVectorStringLPS v = dominantLetter v @ restLetters v"
proof -
  let ?a = "Vector3D (abs (getX v)) (abs (getY v)) (abs (getZ v))"
  consider (x) "getX ?a > threshold" "getX ?a > getY ?a" "getX ?a > getZ ?a"
    | (y) "getY ?a > threshold" "getY ?a > getX ?a" "getY ?a > getZ ?a"
    | (z) "getZ ?a > threshold" "getZ ?a > getX ?a" "getZ ?a > getY ?a"
    using assms unfolding strictlyDominant_def Let_def by auto
  then show ?thesis
  proof cases
    case x
    from x have "dominantLetter v = [if getX v < 0 then CHR ''R'' else CHR ''L'']"
      unfolding dominantLetter_def Let_def by simp
    moreover from x have "restLetters v = remainingLetters
        (abs (getY v), if getY v < 0 then CHR ''A'' else CHR ''P'')
        (abs (getZ v), if getZ v < 0 then CHR ''I'' else CHR ''S'')"
      unfolding restLetters_def Let_def by simp
    ultimately show ?thesis
      unfolding getVectorStringLPS_Suc vectorLoop_x[OF x] vectorLoop_two_x by simp
  next
    case y
    from y have "dominantLetter v = [if getY v < 0 then CHR ''A'' else CHR ''P'']"
      unfolding dominantLetter_def Let_def by simp
    moreover from y have "restLetters v = remainingLetters
        (abs (getX v), if getX v < 0 then CHR ''R'' else CHR ''L'')
        (abs (getZ v), if getZ v < 0 then CHR ''I'' else CHR ''S'')"
      unfolding restLetters_def Let_def by simp
    ultimately show ?thesis
      unfolding getVectorStringLPS_Suc vectorLoop_y[OF y] vectorLoop_two_y by simp
  next
    case z
    from z have "dominantLetter v = [if getZ v < 0 then CHR ''I'' else CHR ''S'']"
      unfolding dominantLetter_def Let_def by simp
    moreover from z have "restLetters v = remainingLetters
        (abs (getX v), if getX v < 0 then CHR ''R'' else CHR ''L'')
        (abs (getY v), if getY v < 0 then CHR ''A'' else CHR ''P'')"
      unfolding restLetters_def Let_def by simp
    ultimately show ?thesis
      unfolding getVectorStringLPS_Suc vectorLoop_z[OF z] vectorLoop_two_z by simp
  qed
qed

text \<open>
  C8 (as amended): the code is the concatenation, in column order, of one string per
  column. The string of a vector with a strictly dominant axis is the letter of that axis
  by sign followed by the letters, by sign, of its two remaining axes: the strictly
  larger of the two if its magnitude is above the threshold, and then the other one if
  its magnitude is above the threshold too. The string of a vector without a strictly
  dominant axis (the largest magnitude is tied or not above the threshold) is empty.
  When every column has a single axis above the threshold, the code is the three-letter
  code of the specification.
\<close>

theorem orientation_code_columns:
  "getOrientationStringLPS m =
     getVectorStringLPS (column m 0) @ getVectorStringLPS (column m 1)
       @ getVectorStringLPS (column m 2)
   \<and> getVectorStringLPS v
       = (if strictlyDominant v then dominantLetter v @ restLetters v else [])
   \<and> ((\<forall>j<3. singleAxis (column m j)) \<longrightarrow>
        getOrientationStringLPS m = claimedOrientationCode m
        \<and> length (getOrientationStringLPS m) = 3)"
proof (intro conjI impI)
  show eq: "getOrientationStringLPS m =
     getVectorStringLPS (column m 0) @ getVectorStringLPS (column m 1)
       @ getVectorStringLPS (column m 2)"
    by (simp add: getOrientationStringLPS_def column_def)
  show "getVectorStringLPS v
       = (if strictlyDominant v then dominantLetter v @ restLetters v else [])"
    using vector_dominant_rest vector_not_dominant by simp
  assume a: "\<forall>j<3. singleAxis (column m j)"
  then have "singleAxis (column m 0)" "singleAxis (column m 1)" "singleAxis (column m 2)"
    by simp_all
  then have s: "getVectorStringLPS (column m 0) = dominantLetter (column m 0)"
      "getVectorStringLPS (column m 1) = dominantLetter (column m 1)"
      "getVectorStringLPS (column m 2) = dominantLetter (column m 2)"
    and l: "length (getVectorStringLPS (column m 0)) = 1"
      "length (getVectorStringLPS (column m 1)) = 1"
      "length (getVectorStringLPS (column m 2)) = 1"
    using vector_single by blast+
  show "getOrientationStringLPS m = claimedOrientationCode m"
    unfolding eq claimedOrientationCode_def s by (rule refl)
  show "length (getOrientationStringLPS m) = 3"
    unfolding eq using l by simp
qed

text \<open>
  C8 as stated fails: a column with two components above the threshold gives two
  letters, so the code of the first matrix has four letters; a column whose two largest
  magnitudes are equal gives none, so the code of the second matrix has two.
\<close>

theorem orientation_code_counterexample:
  "getOrientationStringLPS (Matrix33 [1, 0, 0, 1 / 2, 1, 0, 0, 0, 1]) = ''LPPS''
   \<and> claimedOrientationCode (Matrix33 [1, 0, 0, 1 / 2, 1, 0, 0, 0, 1]) = ''LPS''
   \<and> getOrientationStringLPS (Matrix33 [1, 0, 0, 1, 1, 0, 0, 0, 1]) = ''PS''
   \<and> claimedOrientationCode (Matrix33 [1, 0, 0, 1, 1, 0, 0, 0, 1]) = ''LPS''"
  by (simp add: getOrientationStringLPS_def getVectorStringLPS_def claimedOrientationCode_def
      dominantLetter_def column_def get_def threshold_def numeral_3_eq_3)

theorem orientation_code_columns_witness:
  "singleAxis (column getIdentityMat33 0)
   \<and> singleAxis (column getIdentityMat33 1)
   \<and> singleAxis (column getIdentityMat33 2)
   \<and> strictlyDominant (Vector3D 1 (1/2) (- 1/4))
   \<and> getOrientationStringLPS getIdentityMat33 = ''LPS''
   \<and> getVectorStringLPS (Vector3D 1 (1/2) (- 1/4)) = ''LPI''"
proof -
  have h0: "singleAxis (column getIdentityMat33 0)"
    and h1: "singleAxis (column getIdentityMat33 1)"
    and h2: "singleAxis (column getIdentityMat33 2)"
    by (simp_all add: singleAxis_def column_def getIdentityMat33_def get_def threshold_def)
  have h: "\<forall>j<3. singleAxis (column getIdentityMat33 j)"
  proof (intro allI impI)
    fix j :: nat assume "j < 3"
    then consider "j = 0" | "j = 1" | "j = 2" by linarith
    then show "singleAxis (column getIdentityMat33 j)"
      using h0 h1 h2 by cases simp_all
  qed
  have d: "strictlyDominant (Vector3D 1 (1/2) (- 1/4))"
    by (simp add: strictlyDominant_def threshold_def)
  have c: "claimedOrientationCode getIdentityMat33 = ''LPS''"
    by (simp add: claimedOrientationCode_def dominantLetter_def column_def getIdentityMat33_def
        get_def threshold_def)
  have r: "dominantLetter (Vector3D 1 (1/2) (- 1/4)) @ restLetters (Vector3D 1 (1/2) (- 1/4))
             = ''LPI''"
    by (simp add: dominantLetter_def restLetters_def remainingLetters_def threshold_def)
  note t = orientation_code_columns[of getIdentityMat33 "Vector3D 1 (1/2) (- 1/4)"]
  from t h
  have "getOrientationStringLPS getIdentityMat33 = claimedOrientationCode getIdentityMat33"
    by blast
  moreover from t d r have "getVectorStringLPS (Vector3D 1 (1/2) (- 1/4)) = ''LPI''"
    by simp
  ultimately show ?thesis using h0 h1 h2 d c by simp
qed


section \<open>Properties of the merge\<close>

lemma writeSample_length [simp]: "length (writeSample k xs i v) = length xs"
  by (simp add: writeSample_def)

lemma writeSample_other:
  "int j \<noteq> i \<Longrightarrow> writeSample k xs i v ! j = xs ! j"
  by (auto simp: writeSample_def)

lemma mergeSample_frame:
  assumes "mergeSample k storeAsRGB frameSegment pixelBuffer frameOffset sliceOffset l buffer
             = Inr buffer'"
  shows "length buffer' = length buffer"
    and "readSample pixelBuffer (frameOffset + l) = Some 0 \<Longrightarrow> buffer' = buffer"
    and "\<not> ((if storeAsRGB then 3 else 1) * (sliceOffset + int l) \<le> int i
            \<and> int i < (if storeAsRGB then 3 else 1) * (sliceOffset + int l)
                        + (if storeAsRGB then 3 else 1))
         \<Longrightarrow> buffer' ! i = buffer ! i"
  using assms
  by (auto simp: mergeSample_def Let_def writeSample_other
      split: if_splits option.splits prod.splits)

lemma mergeSamples_frame:
  assumes "mergeSamples k storeAsRGB frameSegment pixelBuffer frameOffset sliceOffset ls buffer
             = Inr buffer'"
  shows "length buffer' = length buffer
    \<and> (\<forall>i. \<not> (\<exists>l \<in> set ls. readSample pixelBuffer (frameOffset + l) \<noteq> Some 0
            \<and> (if storeAsRGB then 3 else 1) * (sliceOffset + int l) \<le> int i
            \<and> int i < (if storeAsRGB then 3 else 1) * (sliceOffset + int l)
                        + (if storeAsRGB then 3 else 1))
         \<longrightarrow> buffer' ! i = buffer ! i)"
  using assms
proof (induction ls arbitrary: buffer)
  case Nil
  then show ?case by simp
next
  case (Cons l ls)
  from Cons.prems obtain b1 where
    s1: "mergeSample k storeAsRGB frameSegment pixelBuffer frameOffset sliceOffset l buffer = Inr b1"
    and s2: "mergeSamples k storeAsRGB frameSegment pixelBuffer frameOffset sliceOffset ls b1 = Inr buffer'"
    by (auto split: sum.splits)
  note ih = Cons.IH[OF s2]
  note st = mergeSample_frame[OF s1]
  show ?case
  proof (intro conjI allI impI)
    show "length buffer' = length buffer" using ih st(1) by simp
  next
    fix i
    assume n: "\<not> (\<exists>l' \<in> set (l # ls). readSample pixelBuffer (frameOffset + l') \<noteq> Some 0
            \<and> (if storeAsRGB then 3 else 1) * (sliceOffset + int l') \<le> int i
            \<and> int i < (if storeAsRGB then 3 else 1) * (sliceOffset + int l')
                        + (if storeAsRGB then 3 else 1))"
    then have "buffer' ! i = b1 ! i" using ih by auto
    moreover have "b1 ! i = buffer ! i"
    proof (cases "readSample pixelBuffer (frameOffset + l) = Some 0")
      case True
      then show ?thesis using st(2) by simp
    next
      case False
      with n show ?thesis by (intro st(3)) auto
    qed
    ultimately show "buffer' ! i = buffer ! i" by simp
  qed
qed

text \<open>
  C10: when the samples of one frame are merged into a buffer (which holds what the
  frames before it wrote), the buffer keeps its length, every entry that is not a
  channel of a voxel whose mask sample is non-zero keeps its value, and so every channel
  of a voxel whose mask sample is zero keeps its value.
\<close>

theorem merge_zero_sample_unchanged:
  assumes "mergeSamples k storeAsRGB frameSegment pixelBuffer frameOffset sliceOffset
             [0..<sliceSize] buffer = Inr buffer'"
  shows "length buffer' = length buffer
    \<and> (\<forall>i. \<not> (\<exists>l<sliceSize. readSample pixelBuffer (frameOffset + l) \<noteq> Some 0
            \<and> (if storeAsRGB then 3 else 1) * (sliceOffset + int l) \<le> int i
            \<and> int i < (if storeAsRGB then 3 else 1) * (sliceOffset + int l)
                        + (if storeAsRGB then 3 else 1))
         \<longrightarrow> buffer' ! i = buffer ! i)
    \<and> (\<forall>l<sliceSize. \<forall>c<(if storeAsRGB then 3 else 1).
          readSample pixelBuffer (frameOffset + l) = Some 0 \<longrightarrow> 0 \<le> sliceOffset \<longrightarrow>
          buffer' ! (nat ((if storeAsRGB then 3 else 1) * (sliceOffset + int l)) + c)
            = buffer ! (nat ((if storeAsRGB then 3 else 1) * (sliceOffset + int l)) + c))"
proof -
  note m = mergeSamples_frame[OF assms]
  let ?mul = "(if storeAsRGB then 3 else 1) :: int"
  have mpos: "0 < ?mul" by simp
  show ?thesis
  proof (intro conjI allI impI)
    show "length buffer' = length buffer" using m by simp
  next
    fix i
    assume "\<not> (\<exists>l<sliceSize. readSample pixelBuffer (frameOffset + l) \<noteq> Some 0
            \<and> ?mul * (sliceOffset + int l) \<le> int i
            \<and> int i < ?mul * (sliceOffset + int l) + ?mul)"
    then show "buffer' ! i = buffer ! i" using m by auto
  next
    fix l c :: nat
    assume l: "l < sliceSize" and c: "c < (if storeAsRGB then 3 else 1)"
      and z: "readSample pixelBuffer (frameOffset + l) = Some 0" and so: "0 \<le> sliceOffset"
    let ?i = "nat (?mul * (sliceOffset + int l)) + c"
    have ii: "int ?i = ?mul * (sliceOffset + int l) + int c" using so by simp
    have "\<not> (\<exists>l' \<in> set [0..<sliceSize]. readSample pixelBuffer (frameOffset + l') \<noteq> Some 0
            \<and> ?mul * (sliceOffset + int l') \<le> int ?i
            \<and> int ?i < ?mul * (sliceOffset + int l') + ?mul)"
    proof
      assume "\<exists>l' \<in> set [0..<sliceSize]. readSample pixelBuffer (frameOffset + l') \<noteq> Some 0
            \<and> ?mul * (sliceOffset + int l') \<le> int ?i
            \<and> int ?i < ?mul * (sliceOffset + int l') + ?mul"
      then obtain l' where nz: "readSample pixelBuffer (frameOffset + l') \<noteq> Some 0"
        and lo: "?mul * (sliceOffset + int l') \<le> int ?i"
        and hi: "int ?i < ?mul * (sliceOffset + int l') + ?mul" by blast
      have cm: "int c < ?mul" using c by (auto split: if_splits)
      have "l' = l"
      proof (rule ccontr)
        assume "l' \<noteq> l"
        then consider "int l' + 1 \<le> int l" | "int l + 1 \<le> int l'" by linarith
        then show False
        proof cases
          case 1
          then have "?mul * (sliceOffset + int l') + ?mul \<le> ?mul * (sliceOffset + int l)"
            by (auto simp: algebra_simps split: if_splits)
          with hi ii show False by linarith
        next
          case 2
          then have "?mul * (sliceOffset + int l) + ?mul \<le> ?mul * (sliceOffset + int l')"
            by (auto simp: algebra_simps split: if_splits)
          with lo ii cm show False by linarith
        qed
      qed
      with nz z show False by simp
    qed
    with m show "buffer' ! ?i = buffer ! ?i" by blast
  qed
qed

theorem merge_zero_sample_unchanged_witness:
  "mergeSamples Uint8 False (Some \<lparr>number = 1, displayValue = Some 5, displayRGBValue = None\<rparr>)
     [1, 0] 0 0 [0..<2] [7, 9] = Inr [5, 9]
   \<and> readSample [1, 0] (0 + 1) = Some 0
   \<and> [5, 9] ! (nat (1 * (0 + int 1)) + 0) = [7, 9 :: int] ! (nat (1 * (0 + int 1)) + 0)"
proof -
  have e: "mergeSamples Uint8 False
      (Some \<lparr>number = 1, displayValue = Some 5, displayRGBValue = None\<rparr>)
      [1, 0] 0 0 [0..<2] [7, 9] = Inr [5, 9]"
    by (simp add: upt_rec mergeSample_def readSample_def writeSample_def toKind_def Let_def)
  have z: "readSample [1, 0] (0 + 1) = Some 0"
    by (simp add: readSample_def)
  from merge_zero_sample_unchanged[OF e] z
  have "[5, 9] ! (nat (1 * (0 + int 1)) + 0) = [7, 9 :: int] ! (nat (1 * (0 + int 1)) + 0)"
    by simp
  with e z show ?thesis by simp
qed

section \<open>Evaluation of \<open>create\<close> on the examples\<close>

lemma upt_3: "[0..<3] = [0, Suc 0, 2]"
  by (simp add: upt_rec)

lemma multiplyArray3D_eval:
  "multiplyArray3D (Matrix33 [a, b, c, d, e, f, g, h, i]) [x, y, z]
     = Inr [a * x + b * y + c * z, d * x + e * y + f * z, g * x + h * y + i * z]"
  by (simp add: multiplyArray3D_def get_def upt_3)

lemma multiplyPoint3D_eval:
  "multiplyPoint3D (Matrix33 [a, b, c, d, e, f, g, h, i]) (Point3D x y z)
     = Point3D (a * x + b * y + c * z) (d * x + e * y + f * z) (g * x + h * y + i * z)"
  by (simp add: multiplyPoint3D_def get_def upt_3 Let_def)

lemma getInverse_identity:
  "getInverse (Matrix33 [1, 0, 0, 0, 1, 0, 0, 0, 1]) = Some (Matrix33 [1, 0, 0, 0, 1, 0, 0, 0, 1])"
  by (simp add: getInverse_def getMatrixInverse_def get_def Let_def)

lemmas example_defs = exampleSeg_def exampleElements_def exampleFrame_def examplePixels_def
  exampleNoModality_def exampleTwoOrientations_def exampleUnknownSegment_def
  exampleSecondFrameEmpty_def

lemmas reconcile_eval = reconcile_def checkTag_def checkTagValue_def elemAt_def
  arraySortEquals_def RequiredDicomSegTags_def getFrames_def getDimensionOrganization_def
  itemValue_def framesDiffer_def sharedGroups_def includesPosPat_def equalPosPat_def
  crossProduct_def getInverse_identity getComparePosPat_def multiplyArray3D_eval
  getSliceGeometrySpacing_def multiplyPoint3D_eval spacingEquals_def numberDigits_def
  Let_def

lemmas gap_eval = addMissingPosPats_def multiplyPoint3D_eval getDistance_def
  addIntermediatePosPats.simps isNotSmall_def REAL_WORLD_EPSILON_def Let_def

lemmas assemble_eval = assemble_def equalPosPat_def findSegment_def upt_rec mergeSample_def
  readSample_def writeSample_def toKind_def Let_def numeral_eq_Suc

lemma reconcile_exampleSeg:
  "reconcile exampleSeg examplePixels = Inr \<lparr>recSize2D = (2, 2), recSliceSize = 4,
        recDimension = \<lparr>organizations = JStr ''1.2.3'', indices = []\<rparr>,
        recSegments = [\<lparr>number = 1, displayValue = Some 5, displayRGBValue = None\<rparr>],
        recStoreAsRGB = False,
        recFrameInfos = [exampleFrame 1 (0, 0, 0) None, exampleFrame 1 (0, 0, 4) None],
        recFramePosPats = [(0, 0, 0), (0, 0, 4)],
        recOrientationMatrix = Matrix33 [1, 0, 0, 0, 1, 0, 0, 0, 1],
        recNewSpacing = (1, 1, 4)\<rparr>"
  by (simp add: example_defs reconcile_eval)

lemma reconcile_exampleNoModality:
  "reconcile exampleNoModality examplePixels = reconcile exampleSeg examplePixels"
  by (simp add: example_defs reconcile_eval)

lemma reconcile_exampleTwoOrientations:
  "reconcile exampleTwoOrientations examplePixels = Inr \<lparr>recSize2D = (2, 2), recSliceSize = 4,
        recDimension = \<lparr>organizations = JStr ''1.2.3'', indices = []\<rparr>,
        recSegments = [\<lparr>number = 1, displayValue = Some 5, displayRGBValue = None\<rparr>],
        recStoreAsRGB = False,
        recFrameInfos = [exampleFrame 1 (0, 0, 0) (Some (1, 0, 0, 0, 1, 0)),
                         exampleFrame 1 (0, 0, 4) (Some (0, 1, 0, 1, 0, 0))],
        recFramePosPats = [(0, 0, 0), (0, 0, 4)],
        recOrientationMatrix = Matrix33 [1, 0, 0, 0, 1, 0, 0, 0, 1],
        recNewSpacing = (1, 1, 4)\<rparr>"
  by (simp add: example_defs reconcile_eval)

lemma reconcile_exampleUnknownSegment:
  "length (samples pb) = 8 \<Longrightarrow>
   reconcile exampleUnknownSegment pb = Inr \<lparr>recSize2D = (2, 2), recSliceSize = 4,
        recDimension = \<lparr>organizations = JStr ''1.2.3'', indices = []\<rparr>,
        recSegments = [\<lparr>number = 1, displayValue = Some 5, displayRGBValue = None\<rparr>],
        recStoreAsRGB = False,
        recFrameInfos = [exampleFrame 1 (0, 0, 0) None, exampleFrame 2 (0, 0, 4) None],
        recFramePosPats = [(0, 0, 0), (0, 0, 4)],
        recOrientationMatrix = Matrix33 [1, 0, 0, 0, 1, 0, 0, 0, 1],
        recNewSpacing = (1, 1, 4)\<rparr>"
  by (simp add: example_defs reconcile_eval)

lemma addMissingPosPats_example:
  "addMissingPosPats (Matrix33 [1, 0, 0, 0, 1, 0, 0, 0, 1]) (1, 1, 4)
     [(0, 0, 0), (0, 0, 4)] = Some (Inr [Some (0, 0, 0), Some (0, 0, 4)])"
  by (simp add: gap_eval)

text \<open>
  C1 fails on the code: \<open>checkTag\<close> compares the requirement type with the numbers
  1 and 2, the table writes it as the strings \<open>'1'\<close> and \<open>'3'\<close>, so no entry is ever
  taken as mandatory. The object without Modality passes the check of the required
  tags, and \<open>create\<close> returns its image.
\<close>

theorem missing_modality_decodes:
  "checkTags (elements exampleNoModality) RequiredDicomSegTags = Inr ()
   \<and> shown (create exampleNoModality examplePixels)
     = Some (Inr ([Some (Point3D 0 0 0), Some (Point3D 0 0 4)], (2, 2, 2),
                  [5, 5, 5, 5, 5, 5, 5, 5]))"
proof
  show "checkTags (elements exampleNoModality) RequiredDicomSegTags = Inr ()"
    by (simp add: example_defs reconcile_eval)
  show "shown (create exampleNoModality examplePixels)
     = Some (Inr ([Some (Point3D 0 0 0), Some (Point3D 0 0 4)], (2, 2, 2),
                  [5, 5, 5, 5, 5, 5, 5, 5]))"
    unfolding shown_def create_def reconcile_exampleNoModality reconcile_exampleSeg
    by (simp add: addMissingPosPats_example example_defs assemble_eval)
qed

text \<open>
  C4 fails on the code: the orientation of a frame is compared with the reference by
  \<open>arraySortEquals\<close>, without regard to the order of the six cosines. The two frames
  of the example have different orientations with the same values, and \<open>create\<close>
  returns an image.
\<close>

theorem two_orientations_decode:
  "shown (create exampleTwoOrientations examplePixels)
     = Some (Inr ([Some (Point3D 0 0 0), Some (Point3D 0 0 4)], (2, 2, 2),
                  [5, 5, 5, 5, 5, 5, 5, 5]))"
  unfolding shown_def create_def reconcile_exampleTwoOrientations
  by (simp add: addMissingPosPats_example example_defs assemble_eval)

text \<open>
  C2 as stated fails: for the two frames at (0, 0, 0) and (0, 0, 4) the slice spacing
  found from the geometry is 4 and replaces the declared 2, so the second frame lies at
  slice index 1 and no position is added: the image has two slices and every sample is
  5.
\<close>

theorem two_frames_gap_counterexample:
  "shown (create exampleSeg examplePixels)
     = Some (Inr ([Some (Point3D 0 0 0), Some (Point3D 0 0 4)], (2, 2, 2),
                  [5, 5, 5, 5, 5, 5, 5, 5]))"
  unfolding shown_def create_def reconcile_exampleSeg
  by (simp add: addMissingPosPats_example example_defs assemble_eval)

text \<open>
  C5 as stated fails: the second frame refers to a segment that the segment sequence
  does not have, none of its samples is set, and \<open>create\<close> returns an image.
\<close>

theorem unknown_segment_counterexample:
  "shown (create exampleUnknownSegment exampleSecondFrameEmpty)
     = Some (Inr ([Some (Point3D 0 0 0), Some (Point3D 0 0 4)], (2, 2, 2),
                  [5, 5, 5, 5, 0, 0, 0, 0]))"
proof -
  have "length (samples exampleSecondFrameEmpty) = 8" by (simp add: example_defs)
  note r = reconcile_exampleUnknownSegment[OF this]
  show ?thesis
    unfolding shown_def create_def r
    by (simp add: addMissingPosPats_example example_defs assemble_eval)
qed

lemma mergeSamples_unresolved:
  "mergeSamples k storeAsRGB None pixelBuffer frameOffset sliceOffset ls buffer
     = (if list_ex (\<lambda>l. readSample pixelBuffer (frameOffset + l) \<noteq> Some 0) ls
        then Inl TypeError else Inr buffer)"
  by (induction ls) (auto simp: mergeSample_def Let_def)

lemma mergeFrames_append:
  "mergeFrames k storeAsRGB segments posPats sliceSize pixelBuffer (pre @ rest) f buffer
     = (case mergeFrames k storeAsRGB segments posPats sliceSize pixelBuffer pre f buffer of
          Inl e \<Rightarrow> Inl e
        | Inr buffer1 \<Rightarrow>
            mergeFrames k storeAsRGB segments posPats sliceSize pixelBuffer rest
              (f + length pre) buffer1)"
  by (induction pre arbitrary: f buffer) (auto simp: Let_def split: sum.splits)

text \<open>
  C5 (as amended): let the decode reach the merge of the frame buffers, let a frame refer
  to a segment number that no entry of the segment sequence has, and let the frames
  before it be merged without error. If one of its mask samples is not zero, \<open>create\<close>
  fails with the \<open>TypeError\<close> of reading the display value of an undefined segment and
  returns no image; if all of them are zero, the frame leaves the buffer as it is and the
  merge goes on with the next frame.
\<close>

theorem unresolved_segment_frame:
  assumes rec: "reconcile dataElements pixelBuffer = Inr rec"
    and pos: "addMissingPosPats (recOrientationMatrix rec) (recNewSpacing rec)
                (recFramePosPats rec) = Some (Inr posPats)"
    and frames: "recFrameInfos rec = pre @ frameInfo # rest"
    and unresolved: "findSegment (recSegments rec) (refSegmentNumber frameInfo) = None"
    and before: "mergeFrames (kind pixelBuffer) (recStoreAsRGB rec) (recSegments rec) posPats
                   (recSliceSize rec) (samples pixelBuffer) pre 0
                   (replicate ((if recStoreAsRGB rec then 3 else 1) * recSliceSize rec
                      * length posPats) 0) = Inr buffer1"
  shows "if list_ex (\<lambda>l. readSample (samples pixelBuffer)
                          (recSliceSize rec * length pre + l) \<noteq> Some 0)
              [0..<recSliceSize rec]
         then create dataElements pixelBuffer = Some (Inl TypeError)
         else mergeFrames (kind pixelBuffer) (recStoreAsRGB rec) (recSegments rec) posPats
                (recSliceSize rec) (samples pixelBuffer) (recFrameInfos rec) 0
                (replicate ((if recStoreAsRGB rec then 3 else 1) * recSliceSize rec
                   * length posPats) 0)
              = mergeFrames (kind pixelBuffer) (recStoreAsRGB rec) (recSegments rec) posPats
                  (recSliceSize rec) (samples pixelBuffer) rest (length pre + 1) buffer1"
proof -
  let ?buf = "replicate ((if recStoreAsRGB rec then 3 else 1) * recSliceSize rec
                * length posPats) (0::int)"
  let ?mf = "mergeFrames (kind pixelBuffer) (recStoreAsRGB rec) (recSegments rec) posPats
               (recSliceSize rec) (samples pixelBuffer)"
  let ?nz = "list_ex (\<lambda>l. readSample (samples pixelBuffer)
                          (recSliceSize rec * length pre + l) \<noteq> Some 0)
              [0..<recSliceSize rec]"
  have step: "?mf (recFrameInfos rec) 0 ?buf
      = (if ?nz then Inl TypeError else ?mf rest (length pre + 1) buffer1)"
    unfolding frames mergeFrames_append before
    by (simp add: unresolved mergeSamples_unresolved Let_def)
  show ?thesis
  proof (cases ?nz)
    case True
    with step have "?mf (recFrameInfos rec) 0 ?buf = Inl TypeError" by simp
    then have "assemble dataElements pixelBuffer rec posPats = Inl TypeError"
      by (simp add: assemble_def Let_def)
    then have "create dataElements pixelBuffer = Some (Inl TypeError)"
      by (simp add: create_def rec pos)
    with True show ?thesis by simp
  next
    case False
    with step show ?thesis by simp
  qed
qed

theorem unresolved_segment_frame_witness:
  "findSegment [\<lparr>number = 1, displayValue = Some 5, displayRGBValue = None\<rparr>]
     (refSegmentNumber (exampleFrame 2 (0, 0, 4) None)) = None
   \<and> list_ex (\<lambda>l. readSample (samples examplePixels) (4 * length [exampleFrame 1 (0, 0, 0) None] + l) \<noteq> Some 0) [0..<4]
   \<and> create exampleUnknownSegment examplePixels = Some (Inl TypeError)"
proof -
  let ?rec = "\<lparr>recSize2D = (2, 2), recSliceSize = 4,
        recDimension = \<lparr>organizations = JStr ''1.2.3'', indices = []\<rparr>,
        recSegments = [\<lparr>number = 1, displayValue = Some 5, displayRGBValue = None\<rparr>],
        recStoreAsRGB = False,
        recFrameInfos = [exampleFrame 1 (0, 0, 0) None, exampleFrame 2 (0, 0, 4) None],
        recFramePosPats = [(0, 0, 0), (0, 0, 4)],
        recOrientationMatrix = Matrix33 [1, 0, 0, 0, 1, 0, 0, 0, 1],
        recNewSpacing = (1, 1, 4)\<rparr>"
  have len: "length (samples examplePixels) = 8" by (simp add: example_defs)
  have r: "reconcile exampleUnknownSegment examplePixels = Inr ?rec"
    by (rule reconcile_exampleUnknownSegment[OF len])
  have p: "addMissingPosPats (recOrientationMatrix ?rec) (recNewSpacing ?rec)
             (recFramePosPats ?rec) = Some (Inr [Some (0, 0, 0), Some (0, 0, 4)])"
    using addMissingPosPats_example by simp
  have f: "recFrameInfos ?rec = [exampleFrame 1 (0, 0, 0) None] @ exampleFrame 2 (0, 0, 4) None # []"
    by simp
  have u: "findSegment (recSegments ?rec) (refSegmentNumber (exampleFrame 2 (0, 0, 4) None)) = None"
    by (simp add: findSegment_def exampleFrame_def)
  have b: "mergeFrames (kind examplePixels) (recStoreAsRGB ?rec) (recSegments ?rec)
             [Some (0, 0, 0), Some (0, 0, 4)] (recSliceSize ?rec) (samples examplePixels)
             [exampleFrame 1 (0, 0, 0) None] 0
             (replicate ((if recStoreAsRGB ?rec then 3 else 1) * recSliceSize ?rec
                * length [Some (0::real, 0::real, 0::real), Some (0, 0, 4)]) 0)
           = Inr [5, 5, 5, 5, 0, 0, 0, 0]"
    by (simp add: example_defs assemble_eval)
  have nz: "list_ex (\<lambda>l. readSample (samples examplePixels)
              (recSliceSize ?rec * length [exampleFrame 1 (0, 0, 0) None] + l) \<noteq> Some 0)
              [0..<recSliceSize ?rec]"
    by (simp add: example_defs readSample_def upt_rec)
  from unresolved_segment_frame[OF r p f u b] nz
  have c: "create exampleUnknownSegment examplePixels = Some (Inl TypeError)"
    by simp
  from u nz c show ?thesis by simp
qed

lemma mergeSamples_snoc:
  "mergeSamples k storeAsRGB frameSegment pixelBuffer frameOffset sliceOffset (ls @ [l]) buffer
     = (case mergeSamples k storeAsRGB frameSegment pixelBuffer frameOffset sliceOffset ls buffer of
          Inl e \<Rightarrow> Inl e
        | Inr b \<Rightarrow> mergeSample k storeAsRGB frameSegment pixelBuffer frameOffset sliceOffset l b)"
  by (induction ls arbitrary: buffer) (auto split: sum.splits)

lemma fill_step:
  assumes "so + n < length buffer"
  shows "(take so buffer @ replicate n v @ drop (so + n) buffer)[so + n := v]
           = take so buffer @ replicate (Suc n) v @ drop (so + Suc n) buffer"
  using assms
  by (intro nth_equalityI) (auto simp: nth_append nth_list_update nth_Cons' less_diff_conv2)

lemma mergeSamples_fill:
  assumes "so + n \<le> length buffer"
    and "\<forall>l<n. readSample pixelBuffer (frameOffset + l) \<noteq> Some 0"
  shows "mergeSamples k False (Some seg) pixelBuffer frameOffset (int so) [0..<n] buffer
           = Inr (take so buffer
                  @ replicate n (case displayValue seg of None \<Rightarrow> 0 | Some w \<Rightarrow> toKind k w)
                  @ drop (so + n) buffer)"
  using assms
proof (induction n)
  case 0
  then show ?case by simp
next
  case (Suc n)
  let ?v = "case displayValue seg of None \<Rightarrow> 0 | Some w \<Rightarrow> toKind k w"
  from Suc.prems have ih: "mergeSamples k False (Some seg) pixelBuffer frameOffset (int so) [0..<n] buffer
           = Inr (take so buffer @ replicate n ?v @ drop (so + n) buffer)"
    by (intro Suc.IH) auto
  from Suc.prems have nz: "readSample pixelBuffer (frameOffset + n) \<noteq> Some 0" by simp
  from Suc.prems have lt: "so + n < length buffer" by simp
  have "mergeSample k False (Some seg) pixelBuffer frameOffset (int so) n
          (take so buffer @ replicate n ?v @ drop (so + n) buffer)
        = Inr ((take so buffer @ replicate n ?v @ drop (so + n) buffer)[so + n := ?v])"
    using nz lt by (simp add: mergeSample_def writeSample_def Let_def nat_add_distrib)
  then show ?case
    using fill_step[OF lt, of ?v] by (simp add: mergeSamples_snoc ih)
qed

lemma toKind_5: "toKind k 5 = 5"
  by (cases k) (simp_all add: toKind_def Let_def)

text \<open>
  C2 (as amended): for every object that passes the checks of the tags and of the
  dimension organization, declares two frames at the positions (0, 0, 0) and (0, 0, 4)
  with the axial orientation and the spacing (1, 1, 2), has one segment of scalar display
  value 5 and comes with pixels that are all set, \<open>create\<close> returns an image of two
  slices with the origins (0, 0, 0) and (0, 0, 4) and the spacing (1, 1, 4) in which
  every sample is 5: the slice spacing found from the two positions replaces the
  declared one and no position is added.
\<close>

theorem two_frames_inferred_spacing:
  assumes tags: "checkTags (elements dataElements) RequiredDicomSegTags = Inr ()"
    and frames: "getFrames (elements dataElements) = Some 2"
    and dim: "getDimensionOrganization (elements dataElements) = Inr dimension"
    and sop: "elements dataElements ''00080018'' = Some sopVal"
    and size2D: "image2DSize dataElements = (cols, rows)"
    and nonempty: "0 < cols * rows"
    and segs: "segSequence dataElements =
                 Some [\<lparr>number = n, displayValue = Some 5, displayRGBValue = None\<rparr>]"
    and shared: "sharedFunctionalGroupsSeq dataElements =
                   Some [\<lparr>planeOrientationSeq = Some [(1, 0, 0, 0, 1, 0)],
                          pixelMeasuresSeq = Some [(1, 1, 2)]\<rparr>]"
    and perFrame: "perFrameFuncGroupSequence dataElements =
                     Some [\<lparr>refSegmentNumber = n, imagePosPat = (0, 0, 0),
                            imageOrientationPatient = None, spacing = None\<rparr>,
                           \<lparr>refSegmentNumber = n, imagePosPat = (0, 0, 4),
                            imageOrientationPatient = None, spacing = None\<rparr>]"
    and len: "length (samples pixelBuffer) = 2 * (cols * rows)"
    and allSet: "list_all (\<lambda>v. v \<noteq> 0) (samples pixelBuffer)"
  shows "shown (create dataElements pixelBuffer)
           = Some (Inr ([Some (Point3D 0 0 0), Some (Point3D 0 0 4)], (cols, rows, 2),
                        replicate (2 * (cols * rows)) 5))
         \<and> map_option (map_sum id imageSpacing) (create dataElements pixelBuffer)
             = Some (Inr (1, 1, 4))"
proof -
  let ?s = "cols * rows"
  let ?seg = "\<lparr>number = n, displayValue = Some 5, displayRGBValue = None\<rparr>"
  let ?f0 = "\<lparr>refSegmentNumber = n, imagePosPat = (0, 0, 0),
               imageOrientationPatient = None, spacing = None\<rparr>"
  let ?f1 = "\<lparr>refSegmentNumber = n, imagePosPat = (0, 0, 4),
               imageOrientationPatient = None, spacing = None\<rparr>"
  let ?rec = "\<lparr>recSize2D = (cols, rows), recSliceSize = ?s,
        recDimension = dimension, recSegments = [?seg], recStoreAsRGB = False,
        recFrameInfos = [?f0, ?f1],
        recFramePosPats = [(0, 0, 0), (0, 0, 4)],
        recOrientationMatrix = Matrix33 [1, 0, 0, 0, 1, 0, 0, 0, 1],
        recNewSpacing = (1, 1, 4)\<rparr>"
  have fd: "\<not> framesDiffer (Some 2) (length (samples pixelBuffer)) ?s"
    using nonempty by (simp add: framesDiffer_def len)
  have r: "reconcile dataElements pixelBuffer = Inr ?rec"
    unfolding reconcile_def
    using fd
    by (simp add: tags frames dim size2D segs shared perFrame sharedGroups_def
        includesPosPat_def equalPosPat_def crossProduct_def getInverse_identity
        getComparePosPat_def multiplyArray3D_eval getSliceGeometrySpacing_def
        multiplyPoint3D_eval Let_def)
  have g: "addMissingPosPats (recOrientationMatrix ?rec) (recNewSpacing ?rec)
             (recFramePosPats ?rec) = Some (Inr [Some (0, 0, 0), Some (0, 0, 4)])"
    using addMissingPosPats_example by simp
  have rd: "\<And>i. i < 2 * ?s \<Longrightarrow> readSample (samples pixelBuffer) i \<noteq> Some 0"
    using allSet len by (auto simp: readSample_def list_all_length)
  let ?b0 = "replicate (2 * ?s) (0::int)"
  have m0: "mergeSamples (kind pixelBuffer) False (Some ?seg) (samples pixelBuffer) 0 (int 0)
              [0..<?s] ?b0 = Inr (replicate ?s 5 @ replicate ?s 0)"
    using mergeSamples_fill[of 0 ?s ?b0 "samples pixelBuffer" 0 "kind pixelBuffer" ?seg] rd
    by (simp add: toKind_5 replicate_add[symmetric])
  have m1: "mergeSamples (kind pixelBuffer) False (Some ?seg) (samples pixelBuffer) ?s (int ?s)
              [0..<?s] (replicate ?s 5 @ replicate ?s 0) = Inr (replicate (2 * ?s) 5)"
    using mergeSamples_fill[of ?s ?s "replicate ?s 5 @ replicate ?s 0" "samples pixelBuffer" ?s
        "kind pixelBuffer" ?seg] rd
    by (simp add: toKind_5 replicate_add[symmetric] mult_2)
  have mf: "mergeFrames (kind pixelBuffer) False [?seg] [Some (0, 0, 0), Some (0, 0, 4)] ?s
              (samples pixelBuffer) [?f0, ?f1] 0 ?b0 = Inr (replicate (2 * ?s) 5)"
    using m0 m1 by (simp add: equalPosPat_def findSegment_def Let_def)
  have a: "assemble dataElements pixelBuffer ?rec [Some (0, 0, 0), Some (0, 0, 4)]
      = Inr \<lparr>imageOrigins = [Some (Point3D 0 0 0), Some (Point3D 0 0 4)],
             imageSize = (cols, rows, 2),
             imageSpacing = (1, 1, 4),
             imageOrientation = Matrix33 [1, 0, 0, 0, 1, 0, 0, 0, 1],
             imageBuffer = \<lparr>kind = kind pixelBuffer, samples = replicate (2 * ?s) 5\<rparr>,
             imageUids = [0, 1],
             imageRGB = False,
             imageMeta = \<lparr>
               metaTags = getMetaTags (elements dataElements),
               DimensionOrganizationSequence = organizations dimension,
               DimensionIndexSequence = indices dimension,
               customSegments = [?seg],
               customFrameInfos = [?f0, ?f1],
               SOPInstanceUID = elemAt sopVal 0,
               numberOfFiles = 2\<rparr>\<rparr>"
  proof -
    have mf': "mergeFrames (kind pixelBuffer) (recStoreAsRGB ?rec) (recSegments ?rec)
                 [Some (0, 0, 0), Some (0, 0, 4)] (recSliceSize ?rec) (samples pixelBuffer)
                 (recFrameInfos ?rec) 0
                 (replicate ((if recStoreAsRGB ?rec then 3 else 1) * recSliceSize ?rec
                    * length [Some (0::real, 0::real, 0::real), Some (0, 0, 4)]) 0)
               = Inr (replicate (2 * ?s) 5)"
    proof -
      have e: "(if recStoreAsRGB ?rec then 3 else 1) * recSliceSize ?rec
                 * length [Some (0::real, 0::real, 0::real), Some (0, 0, 4)] = 2 * ?s"
        by simp
      show ?thesis unfolding e using mf by (simp del: mergeFrames.simps)
    qed
    show ?thesis
      unfolding assemble_def Let_def mf'
      by (simp add: sop upt_rec)
  qed
  show ?thesis
    unfolding shown_def create_def r
    using g a by simp
qed

theorem two_frames_inferred_spacing_witness:
  "checkTags (elements exampleSeg) RequiredDicomSegTags = Inr ()
   \<and> getFrames (elements exampleSeg) = Some 2
   \<and> length (samples examplePixels) = 2 * (2 * 2)
   \<and> list_all (\<lambda>v. v \<noteq> 0) (samples examplePixels)
   \<and> shown (create exampleSeg examplePixels)
         = Some (Inr ([Some (Point3D 0 0 0), Some (Point3D 0 0 4)], (2, 2, 2),
                      replicate (2 * (2 * 2)) 5))"
proof -
  have tags: "checkTags (elements exampleSeg) RequiredDicomSegTags = Inr ()"
    by (simp add: example_defs reconcile_eval)
  have frames: "getFrames (elements exampleSeg) = Some 2"
    by (simp add: example_defs getFrames_def elemAt_def numberDigits_def)
  have dim: "getDimensionOrganization (elements exampleSeg)
               = Inr \<lparr>organizations = JStr ''1.2.3'', indices = []\<rparr>"
    by (simp add: example_defs getDimensionOrganization_def itemValue_def elemAt_def)
  have sop: "elements exampleSeg ''00080018'' = Some [JStr ''1.2.3.4'']"
    by (simp add: example_defs)
  have size2D: "image2DSize exampleSeg = (2, 2)"
    by (simp add: example_defs)
  have nonempty: "0 < (2::nat) * 2" by simp
  have segs: "segSequence exampleSeg
                = Some [\<lparr>number = 1, displayValue = Some 5, displayRGBValue = None\<rparr>]"
    by (simp add: example_defs)
  have shared: "sharedFunctionalGroupsSeq exampleSeg =
                   Some [\<lparr>planeOrientationSeq = Some [(1, 0, 0, 0, 1, 0)],
                          pixelMeasuresSeq = Some [(1, 1, 2)]\<rparr>]"
    by (simp add: example_defs)
  have perFrame: "perFrameFuncGroupSequence exampleSeg =
                     Some [\<lparr>refSegmentNumber = 1, imagePosPat = (0, 0, 0),
                            imageOrientationPatient = None, spacing = None\<rparr>,
                           \<lparr>refSegmentNumber = 1, imagePosPat = (0, 0, 4),
                            imageOrientationPatient = None, spacing = None\<rparr>]"
    by (simp add: example_defs)
  have len: "length (samples examplePixels) = 2 * (2 * 2)"
    by (simp add: example_defs)
  have allSet: "list_all (\<lambda>v. v \<noteq> 0) (samples examplePixels)"
    by (simp add: example_defs)
  from two_frames_inferred_spacing[OF tags frames dim sop size2D nonempty segs shared
      perFrame len allSet]
  have "shown (create exampleSeg examplePixels)
         = Some (Inr ([Some (Point3D 0 0 0), Some (Point3D 0 0 4)], (2, 2, 2),
                      replicate (2 * (2 * 2)) 5))"
    by blast
  with tags frames len allSet show ?thesis by blast
qed

section \<open>Properties of gap filling\<close>

lemma isNotSmall_iff: "isNotSmall v \<longleftrightarrow> v > 1 / 100"
  by (auto simp: isNotSmall_def REAL_WORLD_EPSILON_def Let_def)

lemma indexToWorld_slice:
  assumes "sliceStep (geoOrientation g) (geoSpacing g) = (vx, vy, vz)"
  shows "indexToWorld g (0, 0, k)
           = Point3D (pointX (geoOrigin g) + real k * vx)
                     (pointY (geoOrigin g) + real k * vy)
                     (pointZ (geoOrigin g) + real k * vz)"
proof -
  obtain sx sy sz where s: "geoSpacing g = (sx, sy, sz)" by (cases "geoSpacing g")
  with assms show ?thesis
    by (auto simp: multiplyPoint3D_def get_def upt_3 Let_def algebra_simps)
qed









lemma loop_unfold:
  "addIntermediatePosPats g t dp (indexToWorld g (0, 0, k)) (sliceDistance g t k) k pp
     = (if isNotSmall (sliceDistance g t k) then
          (if dp < sliceDistance g t (Suc k) then Some (Inl IntermediatePositionDivergence)
           else addIntermediatePosPats g t dp (indexToWorld g (0, 0, Suc k))
                  (sliceDistance g t (Suc k)) (Suc k)
                  (pp @ [Some (pointPosPat (indexToWorld g (0, 0, k)))]))
        else Some (Inr (k, pp)))"
  by (subst addIntermediatePosPats.simps) (simp add: Let_def sliceDistance_def pointPosPat_def)


lemma addPosPats_unfold:
  "addPosPats g (framePosPat # rest) sliceIndex posPats
     = (case addIntermediatePosPats g (point3DFromArray framePosPat)
               (sliceDistance g (point3DFromArray framePosPat) (Suc sliceIndex))
               (indexToWorld g (0, 0, Suc sliceIndex))
               (sliceDistance g (point3DFromArray framePosPat) (Suc sliceIndex))
               (Suc sliceIndex) posPats of
          None \<Rightarrow> None
        | Some (Inl e) \<Rightarrow> Some (Inl e)
        | Some (Inr (sliceIndex', posPats')) \<Rightarrow>
            addPosPats g rest sliceIndex' (posPats' @ [Some framePosPat]))"
  by (simp add: Let_def sliceDistance_def del: indexToWorld.simps)











lemmas gap_example_defs = exampleThreeFrames_def exampleThreePixels_def exampleInPlane_def
  exampleRec_def











lemma getDistance_self: "getDistance p p = 0"
  by (simp add: getDistance_def)

lemma checkFrameInfos_positions:
  assumes "checkFrameInfos fis acc iop sp = Inr (fpp, iop', sp')"
    and "distinct acc"
  shows "distinct fpp \<and> set fpp = set acc \<union> imagePosPat ` set fis"
  using assms
proof (induction fis arbitrary: acc iop sp)
  case Nil
  then show ?case by simp
next
  case (Cons fi fis)
  let ?acc = "if \<not> includesPosPat acc (imagePosPat fi) then acc @ [imagePosPat fi] else acc"
  from Cons.prems(1) obtain iop1 sp1 where
    r: "checkFrameInfos fis ?acc iop1 sp1 = Inr (fpp, iop', sp')"
    by (auto simp: Let_def split: sum.splits option.splits if_splits)
  have inc: "includesPosPat acc (imagePosPat fi) \<longleftrightarrow> imagePosPat fi \<in> set acc"
    by (auto simp: includesPosPat_def equalPosPat_def list_ex_iff)
  have d: "distinct ?acc" using Cons.prems(2) by (simp add: inc)
  have s: "set ?acc = insert (imagePosPat fi) (set acc)" by (auto simp: inc)
  from Cons.IH[OF r d] s show ?case by auto
qed

lemma insertSorted_mset:
  "insertSorted cmp x ys = Inr r \<Longrightarrow> mset r = add_mset x (mset ys)"
  by (induction ys arbitrary: r) (auto split: sum.splits if_splits)

lemma arraySort_mset:
  "arraySort cmp xs = Inr ys \<Longrightarrow> mset ys = mset xs"
  by (induction xs arbitrary: ys) (auto split: sum.splits dest: insertSorted_mset)

section \<open>Properties of uniformly spaced positions\<close>

text \<open>The compare function orders by the projection on the normal, and the sort puts
  the positions in that order.\<close>

lemma compare_key:
  assumes "getInverse m = Some minv"
  shows "getComparePosPat m a b = Inr (normalKey m a - normalKey m b)"
proof -
  obtain ax ay az where a: "a = (ax, ay, az)" by (cases a)
  obtain bx by' bz where b: "b = (bx, by', bz)" by (cases b)
  show ?thesis
    unfolding a b
    by (simp add: getComparePosPat_def normalKey_def assms multiplyArray3D_def
        multiplyPoint3D_def upt_3 Let_def)
qed

lemma insertSorted_set:
  "insertSorted cmp x ys = Inr r \<Longrightarrow> set r = insert x (set ys)"
  using insertSorted_mset[of cmp x ys r] by (metis mset_eq_setD set_mset_add_mset_insert set_mset_mset)

lemma insertSorted_sorted:
  "insertSorted (\<lambda>a b. Inr (k a - k b)) x ys = Inr r \<Longrightarrow> sorted (map k ys)
     \<Longrightarrow> sorted (map k r)"
proof (induction ys arbitrary: r)
  case Nil
  then show ?case by auto
next
  case (Cons y ys)
  show ?case
  proof (cases "k x - k y \<le> 0")
    case True
    with Cons.prems have "r = x # y # ys" by simp
    with True Cons.prems(2) show ?thesis by auto
  next
    case False
    with Cons.prems(1) obtain r' where
      r': "insertSorted (\<lambda>a b. Inr (k a - k b)) x ys = Inr r'" and r: "r = y # r'"
      by (auto split: sum.splits)
    from Cons.prems(2) have s: "sorted (map k ys)" and le: "\<forall>z\<in>set ys. k y \<le> k z" by auto
    from Cons.IH[OF r' s] have "sorted (map k r')" .
    moreover from insertSorted_set[OF r'] le False have "\<forall>z\<in>set r'. k y \<le> k z" by auto
    ultimately show ?thesis unfolding r by auto
  qed
qed

lemma arraySort_sorted:
  "arraySort (\<lambda>a b. Inr (k a - k b)) xs = Inr ys \<Longrightarrow> sorted (map k ys)"
proof (induction xs arbitrary: ys)
  case Nil
  then show ?case by simp
next
  case (Cons x xs)
  from Cons.prems obtain r where r: "arraySort (\<lambda>a b. Inr (k a - k b)) xs = Inr r"
    and i: "insertSorted (\<lambda>a b. Inr (k a - k b)) x r = Inr ys"
    by (auto split: sum.splits)
  from insertSorted_sorted[OF i Cons.IH[OF r]] show ?case .
qed

lemma arraySort_normalKey:
  assumes "arraySort (getComparePosPat m) xs = Inr ys"
  shows "sorted (map (normalKey m) ys)"
proof (cases "getInverse m")
  case None
  then have "normalKey m = (\<lambda>p. 0)"
    by (simp add: normalKey_def fun_eq_iff)
  then show ?thesis by (induction ys) auto
next
  case (Some minv)
  have "getComparePosPat m = (\<lambda>a b. Inr (normalKey m a - normalKey m b))"
    using compare_key[OF Some] by (simp add: fun_eq_iff)
  with assms show ?thesis using arraySort_sorted[of "normalKey m" xs ys] by simp
qed

lemma normalKey_step:
  assumes "getInverse m = Some minv"
  shows "normalKey m (addStep p (normalStep m d)) = normalKey m p + d"
proof -
  obtain x y z where p: "p = (x, y, z)" by (cases p)
  let ?v = "\<lambda>i j. getValues m ! (i * 3 + j)"
  define D where "D = ?v 0 0 * (?v 1 1 * ?v 2 2 - ?v 1 2 * ?v 2 1)
                    + ?v 0 1 * (?v 1 2 * ?v 2 0 - ?v 1 0 * ?v 2 2)
                    + ?v 0 2 * (?v 1 0 * ?v 2 1 - ?v 1 1 * ?v 2 0)"
  from assms have det: "D \<noteq> 0"
    and minv: "minv = Matrix33 [
       1 / D * (?v 1 1 * ?v 2 2 - ?v 1 2 * ?v 2 1),
       1 / D * (?v 0 2 * ?v 2 1 - ?v 0 1 * ?v 2 2),
       1 / D * (?v 0 1 * ?v 1 2 - ?v 0 2 * ?v 1 1),
       1 / D * (?v 1 2 * ?v 2 0 - ?v 1 0 * ?v 2 2),
       1 / D * (?v 0 0 * ?v 2 2 - ?v 0 2 * ?v 2 0),
       1 / D * (?v 0 2 * ?v 1 0 - ?v 0 0 * ?v 1 2),
       1 / D * (?v 1 0 * ?v 2 1 - ?v 1 1 * ?v 2 0),
       1 / D * (?v 0 1 * ?v 2 0 - ?v 0 0 * ?v 2 1),
       1 / D * (?v 0 0 * ?v 1 1 - ?v 0 1 * ?v 1 0)]"
    unfolding getInverse_def getMatrixInverse_def get_def Let_def D_def
    by (auto split: if_splits)
  have expand: "(?v 1 0 * ?v 2 1 - ?v 1 1 * ?v 2 0) * ?v 0 2
              + (?v 0 1 * ?v 2 0 - ?v 0 0 * ?v 2 1) * ?v 1 2
              + (?v 0 0 * ?v 1 1 - ?v 0 1 * ?v 1 0) * ?v 2 2 = D"
    by (simp add: D_def algebra_simps)
  have "normalKey m (addStep p (normalStep m d)) - normalKey m p
          = 1 / D * ((?v 1 0 * ?v 2 1 - ?v 1 1 * ?v 2 0) * ?v 0 2
              + (?v 0 1 * ?v 2 0 - ?v 0 0 * ?v 2 1) * ?v 1 2
              + (?v 0 0 * ?v 1 1 - ?v 0 1 * ?v 1 0) * ?v 2 2) * d"
    unfolding p normalKey_def assms option.case normalStep_def
    using det by (simp add: minv multiplyPoint3D_eval get_def field_simps)
  also have "\<dots> = d" unfolding expand using det by simp
  finally show ?thesis by simp
qed


lemma sliceStep_normalStep: "sliceStep m (sx, sy, sz) = normalStep m sz"
  by (simp add: normalStep_def)

lemma addPosPats_uniform:
  assumes "uniformlySpaced (geoOrientation g) d (p # rest)"
    and "geoSpacing g = (sx, sy, d)"
    and "point3DFromArray p = indexToWorld g (0, 0, sliceIndex)"
  shows "addPosPats g rest sliceIndex posPats = Some (Inr (posPats @ map Some rest))"
  using assms(1,3)
proof (induction rest arbitrary: p sliceIndex posPats)
  case Nil
  then show ?case by simp
next
  case (Cons q rest)
  obtain vx vy vz where v: "sliceStep (geoOrientation g) (geoSpacing g) = (vx, vy, vz)"
    by (cases "sliceStep (geoOrientation g) (geoSpacing g)")
  then have n: "normalStep (geoOrientation g) d = (vx, vy, vz)"
    by (simp add: assms(2) normalStep_def)
  obtain px py pz where p: "p = (px, py, pz)" by (cases p)
  from Cons.prems(1)[unfolded uniformlySpaced.simps]
  have q: "q = addStep p (normalStep (geoOrientation g) d)"
    and u: "uniformlySpaced (geoOrientation g) d (q # rest)"
    by blast+
  from Cons.prems(2) have pp: "Point3D px py pz
      = Point3D (pointX (geoOrigin g) + real sliceIndex * vx)
                (pointY (geoOrigin g) + real sliceIndex * vy)
                (pointZ (geoOrigin g) + real sliceIndex * vz)"
    unfolding indexToWorld_slice[OF v] p by simp
  have next_point: "point3DFromArray q = indexToWorld g (0, 0, Suc sliceIndex)"
    unfolding indexToWorld_slice[OF v] q n p using pp
    by (simp add: algebra_simps)
  have d0: "sliceDistance g (point3DFromArray q) (Suc sliceIndex) = 0"
    unfolding sliceDistance_def next_point[symmetric] by (rule getDistance_self)
  have ns: "\<not> isNotSmall (0::real)" by (simp add: isNotSmall_iff)
  have inner: "addIntermediatePosPats g (point3DFromArray q)
                 (sliceDistance g (point3DFromArray q) (Suc sliceIndex))
                 (indexToWorld g (0, 0, Suc sliceIndex))
                 (sliceDistance g (point3DFromArray q) (Suc sliceIndex))
                 (Suc sliceIndex) posPats = Some (Inr (Suc sliceIndex, posPats))"
    using ns by (subst loop_unfold) (simp add: d0 del: indexToWorld.simps)
  have "addPosPats g (q # rest) sliceIndex posPats
          = addPosPats g rest (Suc sliceIndex) (posPats @ [Some q])"
    unfolding addPosPats_unfold inner by simp
  also have "\<dots> = Some (Inr ((posPats @ [Some q]) @ map Some rest))"
    by (rule Cons.IH[OF u next_point])
  finally show ?case by simp
qed

lemma addMissingPosPats_uniform:
  assumes "framePosPats \<noteq> []"
    and "uniformlySpaced m d framePosPats"
  shows "addMissingPosPats m (sx, sy, d) framePosPats = Some (Inr (map Some framePosPats))"
proof -
  from assms(1) obtain first rest where f: "framePosPats = first # rest"
    by (cases framePosPats) auto
  let ?g = "\<lparr>geoOrigin = point3DFromArray first, geoSpacing = (sx, sy, d), geoOrientation = m\<rparr>"
  obtain vx vy vz where v: "sliceStep (geoOrientation ?g) (geoSpacing ?g) = (vx, vy, vz)"
    by (cases "sliceStep (geoOrientation ?g) (geoSpacing ?g)")
  have start: "point3DFromArray first = indexToWorld ?g (0, 0, 0)"
    unfolding indexToWorld_slice[OF v] by simp
  have u: "uniformlySpaced (geoOrientation ?g) d (first # rest)"
    using assms(2) f by simp
  have s: "geoSpacing ?g = (sx, sy, d)" by simp
  from addPosPats_uniform[OF u s start, of "[Some first]"]
  show ?thesis unfolding addMissingPosPats_def f by simp
qed

lemma addStep_zero: "addStep p (normalStep m 0) = p"
  by (cases p) (simp add: normalStep_def)

lemma uniform_strict_keys:
  assumes "getInverse m = Some minv" and "0 < d"
  shows "uniformlySpaced m d ps \<Longrightarrow> sorted_wrt (<) (map (normalKey m) ps)"
proof (induction ps rule: induct_list012)
  case 1
  then show ?case by simp
next
  case (2 p)
  then show ?case by simp
next
  case (3 p q rest)
  from 3(3)[unfolded uniformlySpaced.simps]
  have q: "q = addStep p (normalStep m d)" and u: "uniformlySpaced m d (q # rest)"
    by blast+
  from 3(2)[OF u] have s: "sorted_wrt (<) (map (normalKey m) (q # rest))" .
  from normalKey_step[OF assms(1), of p d] q assms(2)
  have lt: "normalKey m p < normalKey m q" by simp
  from s have "\<forall>z\<in>set rest. normalKey m q < normalKey m z" by simp
  with lt have "\<forall>z\<in>set (q # rest). normalKey m p < normalKey m z" by auto
  with s show ?case by simp
qed

lemma sorted_positions_unique:
  assumes "distinct ps" "distinct qs" "set ps = set qs"
    and "sorted_wrt (<) (map k ps)" and "sorted (map k qs)"
  shows "ps = qs"
proof -
  from assms(4) have dk: "distinct (map k ps)" and sk: "sorted (map k ps)"
    using strict_sorted_iff[of "map k ps"] by simp_all
  from dk have inj: "inj_on k (set ps)" by (simp add: distinct_map)
  then have dq: "distinct (map k qs)" using assms(2,3) by (simp add: distinct_map)
  have "set (map k ps) = set (map k qs)" using assms(3) by simp
  from sorted_distinct_set_unique[OF sk dk assms(5) dq this]
  have "map k ps = map k qs" .
  moreover from inj assms(3) have "inj_on k (set ps \<union> set qs)" by simp
  ultimately show ?thesis by (simp add: inj_on_map_eq_map)
qed


lemma reconcile_parts:
  assumes "reconcile dataElements pixelBuffer = Inr rec"
  shows "\<exists>sharedIop sharedSpacing fpp iop spacing' geo.
     perFrameFuncGroupSequence dataElements = Some (recFrameInfos rec)
     \<and> checkFrameInfos (recFrameInfos rec) [] sharedIop sharedSpacing
          = Inr (fpp, iop, Some spacing')
     \<and> arraySort (getComparePosPat (recOrientationMatrix rec)) fpp = Inr (recFramePosPats rec)
     \<and> getSliceGeometrySpacing (map point3DFromArray (recFramePosPats rec))
          (recOrientationMatrix rec) = Inr geo
     \<and> recNewSpacing rec = getNewSpacing spacing' geo
     \<and> recSize2D rec = image2DSize dataElements"
  using assms unfolding reconcile_def
  by (force simp: Let_def simp del: getOrientationMatrix.simps getNewSpacing.simps
      split: sum.splits option.splits if_splits prod.splits)

lemma getSliceGeometrySpacing_two:
  assumes "getSliceGeometrySpacing origins m = Inr geo" and "2 \<le> length origins"
  shows "\<exists>minv d. getInverse m = Some minv \<and> geo = Some d"
  using assms unfolding getSliceGeometrySpacing_def
  by (auto simp: Let_def split: if_splits option.splits)

lemma getSliceGeometrySpacing_one:
  assumes "length origins \<le> 1"
  shows "getSliceGeometrySpacing origins m = Inr None"
  using assms unfolding getSliceGeometrySpacing_def by simp

lemma getNewSpacing_slice:
  "getNewSpacing s (Some d) = (fst s, fst (snd s), d)"
  by (cases s) auto

text \<open>
  C7 (as amended): let the first part of \<open>create\<close> pass for an input with at least one
  frame, and let \<open>ps\<close> be the distinct positions of its frames in normal-sorted order.
  When every position of \<open>ps\<close> is exactly one inferred slice spacing after the one
  before it along the normal, the sorted positions of \<open>create\<close> are \<open>ps\<close>, the
  completion of the positions adds none, \<open>create\<close> goes on to assemble the image for
  them, and the number of slices of the image is the number of distinct positions of the
  frames.
\<close>

theorem uniform_positions_no_gap:
  assumes rec: "reconcile dataElements pixelBuffer = Inr rec"
    and frames: "perFrameFuncGroupSequence dataElements = Some frameInfos"
    and ne: "frameInfos \<noteq> []"
    and dist: "distinct ps"
    and pset: "set ps = imagePosPat ` set frameInfos"
    and srt: "sorted (map (normalKey (recOrientationMatrix rec)) ps)"
    and uni: "\<forall>d. getSliceGeometrySpacing (map point3DFromArray ps) (recOrientationMatrix rec)
                    = Inr (Some d)
                \<longrightarrow> uniformlySpaced (recOrientationMatrix rec) d ps"
  shows "recFramePosPats rec = ps
    \<and> addMissingPosPats (recOrientationMatrix rec) (recNewSpacing rec) (recFramePosPats rec)
         = Some (Inr (map Some ps))
    \<and> create dataElements pixelBuffer
         = Some (assemble dataElements pixelBuffer rec (map Some ps))
    \<and> length ps = card (imagePosPat ` set frameInfos)
    \<and> (\<forall>img. create dataElements pixelBuffer = Some (Inr img) \<longrightarrow>
           imageSize img = (fst (image2DSize dataElements), snd (image2DSize dataElements),
                            card (imagePosPat ` set frameInfos)))"
proof -
  let ?m = "recOrientationMatrix rec"
  let ?qs = "recFramePosPats rec"
  from reconcile_parts[OF rec] frames obtain sharedIop sharedSpacing fpp iop spacing' geo where
    fi: "recFrameInfos rec = frameInfos"
    and chk: "checkFrameInfos frameInfos [] sharedIop sharedSpacing = Inr (fpp, iop, Some spacing')"
    and srtd: "arraySort (getComparePosPat ?m) fpp = Inr ?qs"
    and geo: "getSliceGeometrySpacing (map point3DFromArray ?qs) ?m = Inr geo"
    and ns: "recNewSpacing rec = getNewSpacing spacing' geo"
    and sz: "recSize2D rec = image2DSize dataElements"
    by auto
  from checkFrameInfos_positions[OF chk] have "distinct fpp"
    and "set fpp = imagePosPat ` set frameInfos" by simp_all
  moreover from arraySort_mset[OF srtd] have "mset ?qs = mset fpp" .
  ultimately have dq: "distinct ?qs" and sq: "set ?qs = set ps"
    using pset by (metis mset_eq_imp_distinct_iff, metis mset_eq_setD)
  have kq: "sorted (map (normalKey ?m) ?qs)" by (rule arraySort_normalKey[OF srtd])
  from dist dq sq have len: "length ?qs = length ps"
    by (metis distinct_card)
  from ne pset have pne: "ps \<noteq> []" by auto
  have card: "length ps = card (imagePosPat ` set frameInfos)"
    using dist pset by (metis distinct_card)
  have eq_gap: "?qs = ps
     \<and> addMissingPosPats ?m (recNewSpacing rec) ?qs = Some (Inr (map Some ps))"
  proof (cases "length ps \<le> 1")
    case True
    with pne obtain p where p: "ps = [p]" by (cases ps) auto
    with sq dq len have q: "?qs = [p]" by (cases ?qs) auto
    show ?thesis unfolding q p by (simp add: addMissingPosPats_def)
  next
    case False
    then have two: "2 \<le> length (map point3DFromArray ?qs)"
      and two': "2 \<le> length ps" using len by simp_all
    from getSliceGeometrySpacing_two[OF geo two] obtain minv dq' where
      inv: "getInverse ?m = Some minv" and g: "geo = Some dq'" by blast
    obtain d where dps: "getSliceGeometrySpacing (map point3DFromArray ps) ?m = Inr (Some d)"
      using two' inv unfolding getSliceGeometrySpacing_def by (simp add: Let_def)
    with uni have u: "uniformlySpaced ?m d ps" by blast
    from two' obtain p q rest where ps: "ps = p # q # rest"
      by (cases ps; cases "tl ps") auto
    from u ps have q: "q = addStep p (normalStep ?m d)" by simp
    from srt ps have "normalKey ?m p \<le> normalKey ?m q" by simp
    with normalKey_step[OF inv, of p d] q have d0: "0 \<le> d" by simp
    from dist ps have "p \<noteq> q" by auto
    with q addStep_zero[of p ?m] have "d \<noteq> 0" by auto
    with d0 have dpos: "0 < d" by simp
    from uniform_strict_keys[OF inv dpos u]
    have strict: "sorted_wrt (<) (map (normalKey ?m) ps)" .
    from sorted_positions_unique[OF dist dq sq[symmetric] strict kq]
    have e: "?qs = ps" by simp
    with geo dps g have "dq' = d" by simp
    with ns g have "recNewSpacing rec = (fst spacing', fst (snd spacing'), d)"
      by (simp add: getNewSpacing_slice)
    with addMissingPosPats_uniform[OF pne u, of "fst spacing'" "fst (snd spacing')"] e
    show ?thesis by simp
  qed
  then have e: "?qs = ps"
    and g: "addMissingPosPats ?m (recNewSpacing rec) ?qs = Some (Inr (map Some ps))"
    by blast+
  have c: "create dataElements pixelBuffer
           = Some (assemble dataElements pixelBuffer rec (map Some ps))"
    by (simp add: create_def rec g)
  have s: "\<forall>img. create dataElements pixelBuffer = Some (Inr img) \<longrightarrow>
           imageSize img = (fst (image2DSize dataElements), snd (image2DSize dataElements),
                            card (imagePosPat ` set frameInfos))"
  proof (intro allI impI)
    fix img assume "create dataElements pixelBuffer = Some (Inr img)"
    with c have "assemble dataElements pixelBuffer rec (map Some ps) = Inr img" by simp
    then have "imageSize img = (fst (recSize2D rec), snd (recSize2D rec),
                                length (map Some ps))"
      by (auto simp: assemble_def Let_def split: sum.splits option.splits)
    with card sz show "imageSize img
        = (fst (image2DSize dataElements), snd (image2DSize dataElements),
           card (imagePosPat ` set frameInfos))" by simp
  qed
  from e g c card s show ?thesis by blast
qed


lemma normalKey_identity:
  "normalKey (Matrix33 [1, 0, 0, 0, 1, 0, 0, 0, 1]) (x, y, z) = z"
  by (simp add: normalKey_def getInverse_identity multiplyPoint3D_eval)

lemma reconcile_exampleNoFrames:
  "reconcile exampleNoFrames exampleNoPixels = Inr (exampleRec [] [] 2)"
  by (simp add: exampleNoFrames_def exampleNoPixels_def gap_example_defs example_defs
      reconcile_eval)

text \<open>
  C7 as stated fails: the object without a frame has no position, so no two of its
  positions are apart by anything else than the slice spacing; \<open>framePosPats[0]\<close>,
  which is \<open>undefined\<close>, is still pushed, and the image has one slice for no position.
\<close>

theorem no_frames_counterexample:
  "perFrameFuncGroupSequence exampleNoFrames = Some []
   \<and> reconcile exampleNoFrames exampleNoPixels = Inr (exampleRec [] [] 2)
   \<and> uniformlySpaced (recOrientationMatrix (exampleRec [] [] 2)) 2
        (recFramePosPats (exampleRec [] [] 2))
   \<and> shown (create exampleNoFrames exampleNoPixels)
       = Some (Inr ([None], (2, 2, 1), [0, 0, 0, 0]))
   \<and> card (imagePosPat ` set ([] :: FrameInfo list)) = 0"
proof (intro conjI)
  show "perFrameFuncGroupSequence exampleNoFrames = Some []"
    by (simp add: exampleNoFrames_def)
  show "reconcile exampleNoFrames exampleNoPixels = Inr (exampleRec [] [] 2)"
    by (rule reconcile_exampleNoFrames)
  show "uniformlySpaced (recOrientationMatrix (exampleRec [] [] 2)) 2
        (recFramePosPats (exampleRec [] [] 2))"
    by (simp add: exampleRec_def)
  show "shown (create exampleNoFrames exampleNoPixels)
       = Some (Inr ([None], (2, 2, 1), [0, 0, 0, 0]))"
    unfolding shown_def create_def reconcile_exampleNoFrames
    by (simp add: exampleRec_def addMissingPosPats_def exampleNoFrames_def exampleNoPixels_def
        example_defs assemble_eval)
  show "card (imagePosPat ` set ([] :: FrameInfo list)) = 0" by simp
qed

text \<open>
  The theorem at the example with two frames at the heights 0 and 4: the inferred slice
  spacing is 4, no position is added and there are two slices for two positions.
\<close>

theorem uniform_positions_no_gap_witness:
  "perFrameFuncGroupSequence exampleSeg
     = Some [exampleFrame 1 (0, 0, 0) None, exampleFrame 1 (0, 0, 4) None]
   \<and> set [(0, 0, 0), (0, 0, 4)]
       = imagePosPat ` set [exampleFrame 1 (0, 0, 0) None, exampleFrame 1 (0, 0, 4) None]
   \<and> sorted (map (normalKey (Matrix33 [1, 0, 0, 0, 1, 0, 0, 0, 1])) [(0, 0, 0), (0, 0, 4)])
   \<and> getSliceGeometrySpacing (map point3DFromArray [(0, 0, 0), (0, 0, 4)])
        (Matrix33 [1, 0, 0, 0, 1, 0, 0, 0, 1]) = Inr (Some 4)
   \<and> uniformlySpaced (Matrix33 [1, 0, 0, 0, 1, 0, 0, 0, 1]) 4 [(0, 0, 0), (0, 0, 4)]
   \<and> addMissingPosPats (Matrix33 [1, 0, 0, 0, 1, 0, 0, 0, 1]) (1, 1, 4) [(0, 0, 0), (0, 0, 4)]
        = Some (Inr [Some (0, 0, 0), Some (0, 0, 4)])
   \<and> card (imagePosPat ` set [exampleFrame 1 (0, 0, 0) None, exampleFrame 1 (0, 0, 4) None]) = 2"
proof -
  let ?fis = "[exampleFrame 1 (0, 0, 0) None, exampleFrame 1 (0, 0, 4) None]"
  let ?ps = "[(0::real, 0::real, 0::real), (0, 0, 4)]"
  let ?m = "Matrix33 [1, 0, 0, 0, 1, 0, 0, 0, 1]"
  let ?rec = "\<lparr>recSize2D = (2, 2), recSliceSize = 4,
        recDimension = \<lparr>organizations = JStr ''1.2.3'', indices = []\<rparr>,
        recSegments = [\<lparr>number = 1, displayValue = Some 5, displayRGBValue = None\<rparr>],
        recStoreAsRGB = False,
        recFrameInfos = ?fis,
        recFramePosPats = ?ps,
        recOrientationMatrix = ?m,
        recNewSpacing = (1, 1, 4)\<rparr>"
  have r: "reconcile exampleSeg examplePixels = Inr ?rec" by (rule reconcile_exampleSeg)
  have f: "perFrameFuncGroupSequence exampleSeg = Some ?fis" by (simp add: exampleSeg_def)
  have ne: "?fis \<noteq> []" by simp
  have d: "distinct ?ps" by simp
  have s: "set ?ps = imagePosPat ` set ?fis" by (simp add: exampleFrame_def)
  have k: "sorted (map (normalKey ?m) ?ps)" by (simp add: normalKey_identity)
  have g: "getSliceGeometrySpacing (map point3DFromArray ?ps) ?m = Inr (Some 4)"
    by (simp add: getSliceGeometrySpacing_def getInverse_identity multiplyPoint3D_eval Let_def)
  have u: "uniformlySpaced ?m 4 ?ps" by (simp add: normalStep_def get_def)
  have k': "sorted (map (normalKey (recOrientationMatrix ?rec)) ?ps)" using k by simp
  have u': "\<forall>d. getSliceGeometrySpacing (map point3DFromArray ?ps) (recOrientationMatrix ?rec)
                    = Inr (Some d)
                \<longrightarrow> uniformlySpaced (recOrientationMatrix ?rec) d ?ps"
  proof (intro allI impI)
    fix d
    assume "getSliceGeometrySpacing (map point3DFromArray ?ps) (recOrientationMatrix ?rec)
              = Inr (Some d)"
    with g have "d = 4" by simp
    with u show "uniformlySpaced (recOrientationMatrix ?rec) d ?ps" by simp
  qed
  from uniform_positions_no_gap[OF r f ne d s k' u']
  have a: "addMissingPosPats ?m (1, 1, 4) ?ps = Some (Inr [Some (0, 0, 0), Some (0, 0, 4)])"
    and c: "card (imagePosPat ` set ?fis) = 2"
    by simp_all
  from f s k g u a c show ?thesis by blast
qed


section \<open>Properties of the matrix inverse\<close>


































end
